theory Spec2Isabelle
  imports Complex_Main
begin

section \<open>Values shared by the routes and the quota utilities\<close>

text \<open>
  A JavaScript string is a sequence of UTF-16 code units. Request bodies, AI replies and
  the messages built from them are kept as lists of code units; header values, operation
  types and document ids are byte strings and stay Isabelle strings.
\<close>

type_synonym js_string = "nat list"

definition lit :: "string \<Rightarrow> js_string" where
  "lit s = map of_char s"

text \<open>
  A JavaScript number that holds an integer is kept as that integer. The two agree on
  the safe integers, those of magnitude at most \<open>2^53 - 1\<close>: sums and differences
  of safe integers that are safe again are exact in double arithmetic, and a template
  literal writes a safe integer in decimal digits. Beyond them doubles round, and from
  \<open>10^21\<close> on a number is written with an exponent; what is stated about
  differences and about the digits of a message is stated for safe integers.
\<close>

definition safe_integer :: "int \<Rightarrow> bool" where
  "safe_integer i = (- 9007199254740991 \<le> i \<and> i \<le> 9007199254740991)"

text \<open>An instant is a \<open>Date\<close>'s time value: milliseconds since the epoch.\<close>

type_synonym instant = int

text \<open>
  What a statement, a collaborator or the route itself can throw. \<open>D1Error\<close> is a
  failure of the storage engine, \<open>ConstraintError\<close> a violated primary key,
  \<open>CollaboratorError\<close> a failure of the rate limiter or the AI binding, and
  \<open>Response404\<close> the \<open>Response\<close> the document loader throws.
\<close>

datatype exn = D1Error | ConstraintError | CollaboratorError | Response404

section \<open>Dates as text\<close>

text \<open>
  The calendar date of a day number (days since 1970-01-01, proleptic Gregorian), as
  \<open>Date\<close> and SQLite both compute it.
\<close>

definition civil_from_days :: "int \<Rightarrow> int \<times> nat \<times> nat" where
  "civil_from_days z0 =
     (let z = z0 + 719468;
          era = z div 146097;
          doe = z mod 146097;
          yoe = (doe - doe div 1460 + doe div 36524 - doe div 146096) div 365;
          doy = doe - (365 * yoe + yoe div 4 - yoe div 100);
          mp = (5 * doy + 2) div 153;
          d = doy - (153 * mp + 2) div 5 + 1;
          m = (if mp < 10 then mp + 3 else mp - 9);
          y = yoe + era * 400 + (if m \<le> 2 then 1 else 0)
      in (y, nat m, nat d))"

text \<open>Decimal text of a natural number, and the same padded with zeros to a width.\<close>

fun dec :: "nat \<Rightarrow> string" where
  "dec n = (if n < 10 then [char_of (48 + n)] else dec (n div 10) @ [char_of (48 + n mod 10)])"

declare dec.simps [simp del]

definition pad :: "nat \<Rightarrow> nat \<Rightarrow> string" where
  "pad w n = replicate (w - length (dec n)) (CHR ''0'') @ dec n"

definition clock_text :: "instant \<Rightarrow> string" where
  "clock_text t =
     (let ms = t mod 86400000
      in pad 2 (nat (ms div 3600000)) @ '':'' @ pad 2 (nat (ms div 60000 mod 60)) @ '':'' @
         pad 2 (nat (ms div 1000 mod 60)))"

text \<open>
  \<open>Date.prototype.toISOString\<close>: \<open>YYYY-MM-DDTHH:mm:ss.sssZ\<close>, the year with a
  sign and six digits outside 0..9999.
\<close>

definition toISOString :: "instant \<Rightarrow> string" where
  "toISOString t =
     (case civil_from_days (t div 86400000) of (y, m, d) \<Rightarrow>
        (if 0 \<le> y \<and> y \<le> 9999 then pad 4 (nat y)
         else (if y < 0 then ''-'' else ''+'') @ pad 6 (nat \<bar>y\<bar>)) @
        ''-'' @ pad 2 m @ ''-'' @ pad 2 d @ ''T'' @ clock_text t @ ''.'' @
        pad 3 (nat (t mod 1000)) @ ''Z'')"

text \<open>
  SQLite's \<open>CURRENT_TIMESTAMP\<close>: \<open>YYYY-MM-DD HH:MM:SS\<close> in UTC, a blank between
  date and time, whole seconds.
\<close>

definition CURRENT_TIMESTAMP :: "instant \<Rightarrow> string" where
  "CURRENT_TIMESTAMP t =
     (case civil_from_days (t div 86400000) of (y, m, d) \<Rightarrow>
        pad 4 (nat y) @ ''-'' @ pad 2 m @ ''-'' @ pad 2 d @ '' '' @ clock_text t)"

text \<open>
  The order SQLite's comparison operators give two TEXT values under the default
  BINARY collation: byte by byte, a proper prefix first.
\<close>

fun text_le :: "string \<Rightarrow> string \<Rightarrow> bool" where
  "text_le [] ys = True"
| "text_le (x # xs) [] = False"
| "text_le (x # xs) (y # ys) =
     (if (of_char x :: nat) < of_char y then True
      else if (of_char y :: nat) < of_char x then False
      else text_le xs ys)"

section \<open>The D1 database (schema.sql)\<close>

record quota_row =
  remaining_operations :: int
  last_reset :: instant

record operation_row =
  op_id :: nat
  ip_address :: string
  operation_type :: string
  operation_count :: int
  document_id :: "string option"
  created_at :: string

record document_row =
  title :: string
  content_of :: js_string

text \<open>
  The database is the three tables, and the plan of the storage engine's failures: the
  next statement consumes the head of \<open>faults\<close> and throws when it is \<open>True\<close>; an
  empty plan is a healthy store. \<open>last_reset\<close> holds the instant whose ISO text the
  code writes and reads back with \<open>new Date\<close>; \<open>created_at\<close> of an operation is the
  text SQLite's \<open>CURRENT_TIMESTAMP\<close> default produces.
\<close>

record d1 =
  quotas :: "string \<rightharpoonup> quota_row"
  operations :: "operation_row list"
  documents :: "string \<rightharpoonup> document_row"
  faults :: "bool list"

text \<open>Running one prepared statement: the fault plan decides whether it throws.\<close>

definition run :: "(d1 \<Rightarrow> (exn + 'a) \<times> d1) \<Rightarrow> d1 \<Rightarrow> (exn + 'a) \<times> d1" where
  "run stmt db =
     (case faults db of
        [] \<Rightarrow> stmt db
      | f # fs \<Rightarrow>
          if f then (Inl D1Error, db\<lparr>faults := fs\<rparr>)
          else stmt (db\<lparr>faults := fs\<rparr>))"

text \<open>\<open>SELECT * FROM quotas WHERE ip_address = ?\<close>\<close>

definition select_quota :: "string \<Rightarrow> d1 \<Rightarrow> (exn + quota_row option) \<times> d1" where
  "select_quota ip = run (\<lambda>db. (Inr (quotas db ip), db))"

text \<open>
  \<open>INSERT INTO quotas (ip_address, remaining_operations, last_reset) VALUES (?, ?, ?)\<close>;
  \<open>ip_address\<close> is the primary key.
\<close>

definition insert_quota :: "string \<Rightarrow> int \<Rightarrow> instant \<Rightarrow> d1 \<Rightarrow> (exn + unit) \<times> d1" where
  "insert_quota ip n t = run (\<lambda>db.
     case quotas db ip of
       Some _ \<Rightarrow> (Inl ConstraintError, db)
     | None \<Rightarrow>
         (Inr (), db\<lparr>quotas := (quotas db)(ip \<mapsto> \<lparr>remaining_operations = n, last_reset = t\<rparr>)\<rparr>))"

text \<open>\<open>UPDATE quotas SET remaining_operations = ?, last_reset = ? WHERE ip_address = ?\<close>\<close>

definition update_quota_reset :: "string \<Rightarrow> int \<Rightarrow> instant \<Rightarrow> d1 \<Rightarrow> (exn + unit) \<times> d1" where
  "update_quota_reset ip n t = run (\<lambda>db.
     case quotas db ip of
       None \<Rightarrow> (Inr (), db)
     | Some row \<Rightarrow>
         (Inr (), db\<lparr>quotas := (quotas db)(ip \<mapsto> row\<lparr>remaining_operations := n, last_reset := t\<rparr>)\<rparr>))"

text \<open>\<open>UPDATE quotas SET remaining_operations = ? WHERE ip_address = ?\<close>\<close>

definition update_quota_remaining :: "string \<Rightarrow> int \<Rightarrow> d1 \<Rightarrow> (exn + unit) \<times> d1" where
  "update_quota_remaining ip n = run (\<lambda>db.
     case quotas db ip of
       None \<Rightarrow> (Inr (), db)
     | Some row \<Rightarrow>
         (Inr (), db\<lparr>quotas := (quotas db)(ip \<mapsto> row\<lparr>remaining_operations := n\<rparr>)\<rparr>))"

text \<open>
  \<open>UPDATE quotas SET remaining_operations = remaining_operations + 1 WHERE ip_address = ?\<close>,
  the refund of the publish action.
\<close>

definition refund_quota :: "string \<Rightarrow> d1 \<Rightarrow> (exn + unit) \<times> d1" where
  "refund_quota ip = run (\<lambda>db.
     case quotas db ip of
       None \<Rightarrow> (Inr (), db)
     | Some row \<Rightarrow>
         (Inr (), db\<lparr>quotas := (quotas db)(ip \<mapsto>
            row\<lparr>remaining_operations := remaining_operations row + 1\<rparr>)\<rparr>))"

text \<open>
  \<open>INSERT INTO operations (ip_address, operation_type, operation_count, document_id)
  VALUES (?, ?, ?, ?)\<close>: the id is the next autoincrement value and \<open>created_at\<close>
  is the column default \<open>CURRENT_TIMESTAMP\<close>, the text of the engine's clock
  \<open>dbnow\<close>.
\<close>

definition next_op_id :: "operation_row list \<Rightarrow> nat" where
  "next_op_id ops = Suc (foldr max (map op_id ops) 0)"

definition insert_operation ::
  "string \<Rightarrow> string \<Rightarrow> int \<Rightarrow> string option \<Rightarrow> instant \<Rightarrow> d1 \<Rightarrow> (exn + unit) \<times> d1" where
  "insert_operation ip ty n doc dbnow = run (\<lambda>db.
     (Inr (), db\<lparr>operations := operations db @
        [\<lparr>op_id = next_op_id (operations db), ip_address = ip, operation_type = ty,
          operation_count = n, document_id = doc,
          created_at = CURRENT_TIMESTAMP dbnow\<rparr>]\<rparr>))"

section \<open>app/utils/quota.ts\<close>

definition FREE_QUOTA :: int where
  "FREE_QUOTA = 50"

definition QUOTA_RESET_HOURS :: int where
  "QUOTA_RESET_HOURS = 24"

record QuotaInfo =
  info_ip :: string
  remaining :: int
  total :: int
  resetTime :: instant
  isNewUser :: bool

record OperationResult =
  success :: bool
  quota :: "QuotaInfo option"
  error :: "js_string option"

text \<open>
  \<open>checkQuota\<close>. \<open>now\<close> is the clock reading \<open>new Date()\<close> takes after the
  SELECT. The \<open>catch\<close> logs and rethrows, so a thrown statement is the result.
  \<open>resetTime\<close> is the instant whose ISO text the code returns.
\<close>

definition checkQuota :: "string \<Rightarrow> instant \<Rightarrow> d1 \<Rightarrow> (exn + QuotaInfo) \<times> d1" where
  "checkQuota ip now db =
     (case select_quota ip db of
        (Inl e, db1) \<Rightarrow> (Inl e, db1)
      | (Inr None, db1) \<Rightarrow>
          (case insert_quota ip FREE_QUOTA now db1 of
             (Inl e, db2) \<Rightarrow> (Inl e, db2)
           | (Inr _, db2) \<Rightarrow>
               (Inr \<lparr>info_ip = ip, remaining = FREE_QUOTA, total = FREE_QUOTA,
                     resetTime = now + QUOTA_RESET_HOURS * 60 * 60 * 1000,
                     isNewUser = True\<rparr>, db2))
      | (Inr (Some existing), db1) \<Rightarrow>
          (let lastReset = last_reset existing;
               hoursSinceReset = (of_int (now - lastReset) :: rat) / (1000 * 60 * 60)
           in if hoursSinceReset \<ge> of_int QUOTA_RESET_HOURS then
                (case update_quota_reset ip FREE_QUOTA now db1 of
                   (Inl e, db2) \<Rightarrow> (Inl e, db2)
                 | (Inr _, db2) \<Rightarrow>
                     (Inr \<lparr>info_ip = ip, remaining = FREE_QUOTA, total = FREE_QUOTA,
                           resetTime = now + QUOTA_RESET_HOURS * 60 * 60 * 1000,
                           isNewUser = False\<rparr>, db2))
              else
                (Inr \<lparr>info_ip = ip, remaining = remaining_operations existing,
                      total = FREE_QUOTA,
                      resetTime = lastReset + QUOTA_RESET_HOURS * 60 * 60 * 1000,
                      isNewUser = False\<rparr>, db1)))"

text \<open>
  Decimal text of an integer, as a template literal renders a number that is a safe
  integer.
\<close>

definition show_int :: "int \<Rightarrow> js_string" where
  "show_int i = lit (if i < 0 then CHR ''-'' # dec (nat (- i)) else dec (nat i))"

definition insufficient_message :: "int \<Rightarrow> int \<Rightarrow> js_string" where
  "insufficient_message have need =
     lit ''Insufficient quota. You have '' @ show_int have @
     lit '' documents remaining. This action requires '' @ show_int need @
     lit '' documents.''"

text \<open>
  \<open>consumeQuota\<close>. \<open>now\<close> is the Worker's clock inside \<open>checkQuota\<close>,
  \<open>dbnow\<close> the engine's clock when the operation is logged. \<open>documentId || null\<close>
  turns an absent or empty id into NULL. Whatever the \<open>try\<close> block throws, the
  \<open>catch\<close> returns the structured failure \<open>failed_result\<close>. The comparison
  and the difference are those of integers, which is what the code computes when
  \<open>remaining\<close>, \<open>operationCount\<close> and their difference are safe integers.
\<close>

definition failed_result :: OperationResult where
  "failed_result = \<lparr>success = False, quota = None,
                     error = Some (lit ''Failed to process quota operation'')\<rparr>"

definition or_null :: "string option \<Rightarrow> string option" where
  "or_null documentId = (case documentId of Some (c # cs) \<Rightarrow> Some (c # cs) | _ \<Rightarrow> None)"

definition consumeQuota ::
  "string \<Rightarrow> string \<Rightarrow> int \<Rightarrow> string option \<Rightarrow> instant \<Rightarrow> instant \<Rightarrow> d1 \<Rightarrow>
   (exn + OperationResult) \<times> d1" where
  "consumeQuota ip operationType operationCount documentId now dbnow db =
     (case checkQuota ip now db of
        (Inl e, db1) \<Rightarrow> (Inr failed_result, db1)
      | (Inr quotaInfo, db1) \<Rightarrow>
          if remaining quotaInfo < operationCount then
            (Inr \<lparr>success = False, quota = Some quotaInfo,
                  error = Some (insufficient_message (remaining quotaInfo) operationCount)\<rparr>,
             db1)
          else
            (let newRemaining = remaining quotaInfo - operationCount
             in case update_quota_remaining ip newRemaining db1 of
               (Inl e, db2) \<Rightarrow> (Inr failed_result, db2)
             | (Inr _, db2) \<Rightarrow>
                 (case insert_operation ip operationType operationCount
                         (or_null documentId) dbnow db2 of
                    (Inl e, db3) \<Rightarrow> (Inr failed_result, db3)
                  | (Inr _, db3) \<Rightarrow>
                      (Inr \<lparr>success = True,
                            quota = Some (quotaInfo\<lparr>remaining := newRemaining\<rparr>),
                            error = None\<rparr>, db3))))"

text \<open>
  \<open>getClientIP\<close>: the first of the two headers that is present and not empty (an
  empty string is falsy), the forwarded-for list cut at its first comma.
\<close>

record request_headers =
  cf_connecting_ip :: "string option"
  x_forwarded_for :: "string option"

definition getClientIP :: "request_headers \<Rightarrow> string" where
  "getClientIP headers =
     (case cf_connecting_ip headers of
        Some (c # cs) \<Rightarrow> c # cs
      | _ \<Rightarrow>
          (case x_forwarded_for headers of
             None \<Rightarrow> ''unknown''
           | Some v \<Rightarrow>
               (case takeWhile (\<lambda>c. c \<noteq> CHR '','') v of
                  [] \<Rightarrow> ''unknown''
                | c # cs \<Rightarrow> c # cs)))"

text \<open>
  The statistics query of \<open>getUsageStats\<close>:
  \<open>SELECT operation_type, SUM(operation_count) as total_count, COUNT(*) as
  operation_instances FROM operations WHERE ip_address = ? AND created_at >= ?
  GROUP BY operation_type ORDER BY total_count DESC\<close>.
  The bound is a TEXT parameter and \<open>created_at\<close> holds TEXT, so \<open>>=\<close> is the
  order of texts. SQL leaves the order of groups with equal totals open; SQLite returns
  them in descending order of \<open>operation_type\<close> (its sorter reverses the ascending
  order in which \<open>GROUP BY\<close> produces them), and so does \<open>order_groups\<close>.
\<close>

record breakdown_row =
  breakdown_type :: string
  total_count :: int
  operation_instances :: nat

definition selected_operations :: "string \<Rightarrow> string \<Rightarrow> operation_row list \<Rightarrow> operation_row list" where
  "selected_operations ip bound ops =
     filter (\<lambda>r. ip_address r = ip \<and> text_le bound (created_at r)) ops"

definition group_operations :: "operation_row list \<Rightarrow> breakdown_row list" where
  "group_operations rows =
     map (\<lambda>ty. \<lparr>breakdown_type = ty,
                 total_count = sum_list (map operation_count (filter (\<lambda>r. operation_type r = ty) rows)),
                 operation_instances = length (filter (\<lambda>r. operation_type r = ty) rows)\<rparr>)
       (remdups (map operation_type rows))"

fun insert_group :: "breakdown_row \<Rightarrow> breakdown_row list \<Rightarrow> breakdown_row list" where
  "insert_group g [] = [g]"
| "insert_group g (h # hs) =
     (if total_count h < total_count g \<or>
         (total_count h = total_count g \<and> text_le (breakdown_type h) (breakdown_type g))
      then g # h # hs
      else h # insert_group g hs)"

definition order_groups :: "breakdown_row list \<Rightarrow> breakdown_row list" where
  "order_groups gs = foldr insert_group gs []"

definition select_usage :: "string \<Rightarrow> string \<Rightarrow> d1 \<Rightarrow> (exn + breakdown_row list) \<times> d1" where
  "select_usage ip bound = run (\<lambda>db.
     (Inr (order_groups (group_operations (selected_operations ip bound (operations db)))), db))"

text \<open>
  \<open>new Date(year, month, date)\<close> of the local calendar day of \<open>today\<close>: local
  midnight, for a Worker whose local time is UTC plus \<open>tz\<close> milliseconds.
\<close>

definition startOfDay :: "int \<Rightarrow> instant \<Rightarrow> instant" where
  "startOfDay tz today = (today + tz) div 86400000 * 86400000 - tz"

text \<open>\<open>Math.round\<close>: the nearest integer, a half rounded up.\<close>

definition Math_round :: "rat \<Rightarrow> int" where
  "Math_round x = \<lfloor>x + 1 / 2\<rfloor>"

record UsageStats =
  stats_quota :: QuotaInfo
  operationsToday :: int
  operationBreakdown :: "breakdown_row list"
  usagePercentage :: int

text \<open>
  \<open>getUsageStats\<close>. \<open>now\<close> is the clock reading inside \<open>checkQuota\<close>,
  \<open>today\<close> the one taken after it. The \<open>catch\<close> returns \<open>null\<close>
  (\<open>None\<close>) for whatever the \<open>try\<close> block throws.
\<close>

definition getUsageStats ::
  "string \<Rightarrow> instant \<Rightarrow> instant \<Rightarrow> int \<Rightarrow> d1 \<Rightarrow> (exn + UsageStats option) \<times> d1" where
  "getUsageStats ip now today tz db =
     (case checkQuota ip now db of
        (Inl e, db1) \<Rightarrow> (Inr None, db1)
      | (Inr q, db1) \<Rightarrow>
          (case select_usage ip (toISOString (startOfDay tz today)) db1 of
             (Inl e, db2) \<Rightarrow> (Inr None, db2)
           | (Inr results, db2) \<Rightarrow>
               (let totalOperationsToday = foldl (\<lambda>sum op. sum + total_count op) 0 results
                in (Inr (Some \<lparr>stats_quota = q,
                           operationsToday = totalOperationsToday,
                           operationBreakdown = results,
                           usagePercentage =
                             Math_round ((of_int (FREE_QUOTA - remaining q) / of_int FREE_QUOTA) * 100)\<rparr>),
                    db2))))"

section \<open>app/utils/moderation.ts\<close>

subsection \<open>The regular expressions of the basic check\<close>

text \<open>
  The six patterns use literals, two negated one-character classes, \<open>\w\<close>,
  \<open>\s\<close>, \<open>\b\<close>, a negative lookahead, sequence and \<open>*\<close> / \<open>+\<close>, all
  under the \<open>i\<close> flag. \<open>test\<close> only asks whether some match exists, so the
  model computes, for a start position, the set of positions where a match can end.
\<close>

datatype rx =
    Lit nat
  | NotLit nat
  | WordChar
  | Space
  | Boundary
  | NotAhead rx
  | Seq rx rx
  | Star rx
  | Eps

text \<open>
  Case folding under \<open>i\<close> without \<open>u\<close>: a code unit is compared by its upper
  case, and no code unit outside ASCII folds to an ASCII one.
\<close>

definition canonicalize :: "nat \<Rightarrow> nat" where
  "canonicalize u = (if 97 \<le> u \<and> u \<le> 122 then u - 32 else u)"

definition is_word :: "nat \<Rightarrow> bool" where
  "is_word u = ((48 \<le> u \<and> u \<le> 57) \<or> (65 \<le> u \<and> u \<le> 90) \<or> u = 95 \<or> (97 \<le> u \<and> u \<le> 122))"

text \<open>White space and line terminators, the class \<open>\s\<close> and what \<open>trim\<close> removes.\<close>

definition is_space :: "nat \<Rightarrow> bool" where
  "is_space u = ((9 \<le> u \<and> u \<le> 13) \<or> u = 32 \<or> u = 160 \<or> u = 5760 \<or>
     (8192 \<le> u \<and> u \<le> 8202) \<or> u = 8232 \<or> u = 8233 \<or> u = 8239 \<or> u = 8287 \<or>
     u = 12288 \<or> u = 65279)"

definition word_at :: "js_string \<Rightarrow> nat \<Rightarrow> bool" where
  "word_at s i = (i < length s \<and> is_word (s ! i))"

definition boundary_at :: "js_string \<Rightarrow> nat \<Rightarrow> bool" where
  "boundary_at s i = ((0 < i \<and> word_at s (i - 1)) \<noteq> word_at s i)"

fun ends :: "js_string \<Rightarrow> rx \<Rightarrow> nat \<Rightarrow> nat list" where
  "ends s (Lit c) i = (if i < length s \<and> canonicalize (s ! i) = canonicalize c then [Suc i] else [])"
| "ends s (NotLit c) i = (if i < length s \<and> canonicalize (s ! i) \<noteq> canonicalize c then [Suc i] else [])"
| "ends s WordChar i = (if word_at s i then [Suc i] else [])"
| "ends s Space i = (if i < length s \<and> is_space (s ! i) then [Suc i] else [])"
| "ends s Boundary i = (if boundary_at s i then [i] else [])"
| "ends s (NotAhead r) i = (if ends s r i = [] then [i] else [])"
| "ends s (Seq a b) i = remdups (concat (map (ends s b) (ends s a i)))"
| "ends s (Star r) i =
     ((\<lambda>js. remdups (js @ concat (map (ends s r) js))) ^^ (length s - i)) [i]"
| "ends s Eps i = [i]"

definition lits :: "string \<Rightarrow> rx" where
  "lits w = foldr (\<lambda>c r. Seq (Lit (of_char c)) r) w Eps"

definition Plus :: "rx \<Rightarrow> rx" where
  "Plus r = Seq r (Star r)"

text \<open>\<open>pattern.test(content)\<close> on a fresh pattern: is there a match from some start?\<close>

definition test :: "rx \<Rightarrow> js_string \<Rightarrow> bool" where
  "test r s = list_ex (\<lambda>i. ends s r i \<noteq> []) [0..<Suc (length s)]"

definition script_pattern :: rx where
  "script_pattern =
     Seq (lits ''<script'') (Seq Boundary (Seq (Star (NotLit 60))
       (Seq (Star (Seq (NotAhead (lits ''</script>'')) (Seq (Lit 60) (Star (NotLit 60)))))
            (lits ''</script>''))))"

definition iframe_pattern :: rx where
  "iframe_pattern = Seq (lits ''<iframe'') (Seq Boundary (Seq (Star (NotLit 62)) (Lit 62)))"

definition handler_pattern :: rx where
  "handler_pattern = Seq (lits ''on'') (Seq (Plus WordChar) (Seq (Star Space) (Lit 61)))"

definition suspiciousPatterns :: "rx list" where
  "suspiciousPatterns =
     [script_pattern, iframe_pattern, lits ''javascript:'', lits ''data:text/html'',
      lits ''vbscript:'', handler_pattern]"

subsection \<open>basicContentCheck and moderateContent\<close>

record moderation_result =
  safe :: bool
  reason :: "js_string option"

definition basicContentCheck :: "js_string \<Rightarrow> moderation_result" where
  "basicContentCheck content =
     (if list_ex (\<lambda>pattern. test pattern content) suspiciousPatterns then
        \<lparr>safe = False, reason = Some (lit ''Content contains potentially malicious code'')\<rparr>
      else if length content > 50000 then
        \<lparr>safe = False, reason = Some (lit ''Content exceeds reasonable length limits'')\<rparr>
      else \<lparr>safe = True, reason = None\<rparr>)"

text \<open>
  What \<open>ai.run\<close> resolves to: \<open>None\<close> for null or undefined, else the two
  fields the code reads. A field is a string, or another truthy value given by its
  \<open>JSON.stringify\<close> text; an absent or falsy non-string field is \<open>None\<close>.
\<close>

datatype ai_value = AiString js_string | AiOther js_string

record ai_reply =
  reply_response :: "ai_value option"
  reply_output :: "ai_value option"

text \<open>
  \<open>a || b\<close> on such fields: the left value when it is truthy (a string is truthy
  when it is not empty), else the right one. \<open>responseText\<close> is
  \<open>response?.response || response?.output || ''\<close>, then the string itself or its
  \<open>JSON.stringify\<close> text.
\<close>

definition or_else :: "ai_value option \<Rightarrow> ai_value \<Rightarrow> ai_value" where
  "or_else v w =
     (case v of
        Some (AiString (c # cs)) \<Rightarrow> AiString (c # cs)
      | Some (AiOther t) \<Rightarrow> AiOther t
      | _ \<Rightarrow> w)"

definition responseText :: "ai_reply option \<Rightarrow> js_string" where
  "responseText r =
     (let aiResponse =
        (case r of
           None \<Rightarrow> AiString []
         | Some reply \<Rightarrow>
             or_else (reply_response reply) (or_else (reply_output reply) (AiString [])))
      in case aiResponse of AiString t \<Rightarrow> t | AiOther t \<Rightarrow> t)"

text \<open>
  \<open>toUpperCase\<close>, exact on the code units whose upper case holds a letter of
  \<open>UNSAFE\<close> (the ASCII letters, sharp s, long s and the Latin ligatures); any other
  code unit is kept as it is, which cannot create or remove an occurrence of
  \<open>UNSAFE\<close>.
\<close>

definition upper_unit :: "nat \<Rightarrow> js_string" where
  "upper_unit u =
     (if 97 \<le> u \<and> u \<le> 122 then [u - 32]
      else if u = 223 then [83, 83]
      else if u = 329 then [700, 78]
      else if u = 383 then [83]
      else if u = 7834 then [65, 702]
      else if u = 64256 then [70, 70]
      else if u = 64257 then [70, 73]
      else if u = 64258 then [70, 76]
      else if u = 64259 then [70, 70, 73]
      else if u = 64260 then [70, 70, 76]
      else if u = 64261 \<or> u = 64262 then [83, 84]
      else [u])"

definition toUpperCase :: "js_string \<Rightarrow> js_string" where
  "toUpperCase t = concat (map upper_unit t)"

fun includes_text :: "js_string \<Rightarrow> js_string \<Rightarrow> bool" where
  "includes_text [] w = (w = [])"
| "includes_text (c # cs) w = (take (length w) (c # cs) = w \<or> includes_text cs w)"

text \<open>\<open>split(':')\<close> and \<open>trim\<close>.\<close>

fun split_colon :: "js_string \<Rightarrow> js_string list" where
  "split_colon [] = [[]]"
| "split_colon (c # cs) =
     (if c = 58 then [] # split_colon cs
      else (case split_colon cs of p # ps \<Rightarrow> (c # p) # ps | [] \<Rightarrow> [[c]]))"

definition trim :: "js_string \<Rightarrow> js_string" where
  "trim t = rev (dropWhile is_space (rev (dropWhile is_space t)))"

text \<open>
  \<open>moderateContent\<close>. The AI is given the first 20000 code units of the content
  (after a fixed instruction text) and either throws or resolves to a reply. When it
  throws, the \<open>catch\<close> falls back to \<open>basicContentCheck\<close>.
\<close>

definition moderateContent ::
  "js_string \<Rightarrow> (js_string \<Rightarrow> exn + ai_reply option) \<Rightarrow> moderation_result" where
  "moderateContent content ai =
     (case ai (take 20000 content) of
        Inl e \<Rightarrow> basicContentCheck content
      | Inr r \<Rightarrow>
          (let answer = responseText r
           in if includes_text (toUpperCase answer) (lit ''UNSAFE'') then
                \<lparr>safe = False,
                 reason = Some (case split_colon answer of
                     p0 # p1 # ps \<Rightarrow>
                       (if trim p1 = [] then lit ''Content flagged as potentially harmful''
                        else trim p1)
                   | _ \<Rightarrow> lit ''Content flagged as potentially harmful'')\<rparr>
              else \<lparr>safe = True, reason = None\<rparr>))"

section \<open>The routes\<close>

subsection \<open>Statements on documents\<close>

text \<open>\<open>SELECT * FROM documents WHERE id = ?\<close>\<close>

definition select_document :: "string \<Rightarrow> d1 \<Rightarrow> (exn + document_row option) \<times> d1" where
  "select_document docId = run (\<lambda>db. (Inr (documents db docId), db))"

text \<open>
  \<open>INSERT INTO documents (id, title, content) VALUES (?, ?, ?)\<close>; \<open>id\<close> is the
  primary key.
\<close>

definition insert_document :: "string \<Rightarrow> string \<Rightarrow> js_string \<Rightarrow> d1 \<Rightarrow> (exn + unit) \<times> d1" where
  "insert_document docId t c = run (\<lambda>db.
     case documents db docId of
       Some _ \<Rightarrow> (Inl ConstraintError, db)
     | None \<Rightarrow>
         (Inr (), db\<lparr>documents := (documents db)(docId \<mapsto> \<lparr>title = t, content_of = c\<rparr>)\<rparr>))"

text \<open>
  \<open>UPDATE operations SET document_id = ? WHERE ip_address = ? AND document_id IS NULL
  ORDER BY created_at DESC LIMIT 1\<close>: among the rows of the address that have no
  document id, one with the greatest \<open>created_at\<close> gets the id. SQL leaves the
  choice among equals open; SQLite takes the first of them in the table, the one
  logged earliest. The result is the position of that row.
\<close>

fun latest_unattached :: "string \<Rightarrow> operation_row list \<Rightarrow> nat option" where
  "latest_unattached ip [] = None"
| "latest_unattached ip (r # rs) =
     (let here = (ip_address r = ip \<and> document_id r = None)
      in case latest_unattached ip rs of
           None \<Rightarrow> (if here then Some 0 else None)
         | Some k \<Rightarrow>
             (if here \<and> text_le (created_at (rs ! k)) (created_at r) then Some 0
              else Some (Suc k)))"

definition attach_document_id :: "string \<Rightarrow> string \<Rightarrow> d1 \<Rightarrow> (exn + unit) \<times> d1" where
  "attach_document_id docId ip = run (\<lambda>db.
     case latest_unattached ip (operations db) of
       None \<Rightarrow> (Inr (), db)
     | Some k \<Rightarrow>
         (Inr (), db\<lparr>operations :=
            (operations db)[k := (operations db ! k)\<lparr>document_id := Some docId\<rparr>]\<rparr>))"

subsection \<open>routes/document.tsx: the loader\<close>

text \<open>
  The document is read first; a missing document and anything the SELECT throws both
  end in the thrown 404 response. Then the view is charged with
  \<open>consumeQuota(ip, "view", 1, DB, id)\<close>, whose result is not looked at, and the
  document is returned.
\<close>

definition document_loader ::
  "string \<Rightarrow> request_headers \<Rightarrow> instant \<Rightarrow> instant \<Rightarrow> d1 \<Rightarrow> (exn + document_row) \<times> d1" where
  "document_loader docId headers now dbnow db =
     (case select_document docId db of
        (Inl e, db1) \<Rightarrow> (Inl Response404, db1)
      | (Inr None, db1) \<Rightarrow> (Inl Response404, db1)
      | (Inr (Some result), db1) \<Rightarrow>
          (case consumeQuota (getClientIP headers) ''view'' 1 (Some docId) now dbnow db1 of
             (r, db2) \<Rightarrow> (Inr result, db2)))"

subsection \<open>routes/home.tsx: the loader and the publish action\<close>

definition home_loader :: "request_headers \<Rightarrow> instant \<Rightarrow> d1 \<Rightarrow> (exn + QuotaInfo) \<times> d1" where
  "home_loader headers now db = checkQuota (getClientIP headers) now db"

text \<open>What the action returns: \<open>{ error, quota }\<close> or \<open>{ success: true, id, quota }\<close>.\<close>

datatype action_result =
    ActionError "js_string option" "QuotaInfo option"
  | ActionSuccess string "QuotaInfo option"

text \<open>The length of \<open>new TextEncoder().encode(content)\<close>: the UTF-8 bytes of the text.\<close>

fun utf8_length :: "js_string \<Rightarrow> nat" where
  "utf8_length [] = 0"
| "utf8_length [c] = (if c < 128 then 1 else if c < 2048 then 2 else 3)"
| "utf8_length (c # d # cs) =
     (if c < 128 then 1 + utf8_length (d # cs)
      else if c < 2048 then 2 + utf8_length (d # cs)
      else if 55296 \<le> c \<and> c < 56320 \<and> 56320 \<le> d \<and> d < 57344 then 4 + utf8_length cs
      else 3 + utf8_length (d # cs))"

definition maxSize :: rat where
  "maxSize = 18 / 10 * 1024 * 1024"

definition too_large_message :: "nat \<Rightarrow> js_string" where
  "too_large_message contentSize =
     lit ''Document is too large ('' @ show_int (Math_round (of_nat contentSize / 1024)) @
     lit ''KB). Maximum size is '' @ show_int (Math_round (maxSize / 1024)) @ lit ''KB.''"

text \<open>
  The last stage of the action: the document is inserted and its id attached to the
  logged operation; when either statement throws, the \<open>catch\<close> refunds one unit
  (a throwing refund leaves the action as an exception) and reports the failure.
\<close>

definition save_stage ::
  "string \<Rightarrow> js_string \<Rightarrow> string \<Rightarrow> OperationResult \<Rightarrow> d1 \<Rightarrow> (exn + action_result) \<times> d1" where
  "save_stage ip content docId quotaResult db =
     (let failed = (\<lambda>dbf. case refund_quota ip dbf of
            (Inl e, db') \<Rightarrow> (Inl e, db')
          | (Inr _, db') \<Rightarrow> (Inr (ActionError (Some (lit ''Failed to save document'')) None), db'))
      in case insert_document docId ''Untitled Document'' content db of
        (Inl e, db1) \<Rightarrow> failed db1
      | (Inr _, db1) \<Rightarrow>
          (case attach_document_id docId ip db1 of
             (Inl e, db2) \<Rightarrow> failed db2
           | (Inr _, db2) \<Rightarrow> (Inr (ActionSuccess docId (quota quotaResult)), db2)))"

text \<open>
  The moderation stage: unsafe content is refunded and blocked; when the refund
  throws, the \<open>catch\<close> around the stage logs it and the action goes on to save.
\<close>

definition blocked_message :: "js_string option \<Rightarrow> js_string" where
  "blocked_message r =
     lit ''Content blocked: '' @ (case r of Some t \<Rightarrow> t | None \<Rightarrow> lit ''undefined'')"

definition moderation_stage ::
  "string \<Rightarrow> js_string \<Rightarrow> (js_string \<Rightarrow> exn + ai_reply option) \<Rightarrow> string \<Rightarrow> OperationResult \<Rightarrow>
   d1 \<Rightarrow> (exn + action_result) \<times> d1" where
  "moderation_stage ip content ai docId quotaResult db =
     (let moderationResult = moderateContent content ai
      in if \<not> safe moderationResult then
           (case refund_quota ip db of
              (Inl e, db1) \<Rightarrow> save_stage ip content docId quotaResult db1
            | (Inr _, db1) \<Rightarrow>
                (Inr (ActionError (Some (blocked_message (reason moderationResult))) None), db1))
         else save_stage ip content docId quotaResult db)"

text \<open>
  The rate limiter stage: \<open>limiter\<close> is what \<open>PUBLISH_RATE_LIMITER.limit\<close> does,
  throw or resolve to its \<open>success\<close> flag. A rejection is refunded and reported;
  a throwing limiter, or a throwing refund, is logged and the action goes on.
\<close>

definition rate_limit_message :: js_string where
  "rate_limit_message = lit ''Rate limit exceeded. Please wait before publishing again.''"

definition rate_limit_stage ::
  "string \<Rightarrow> js_string \<Rightarrow> exn + bool \<Rightarrow> (js_string \<Rightarrow> exn + ai_reply option) \<Rightarrow> string \<Rightarrow>
   OperationResult \<Rightarrow> d1 \<Rightarrow> (exn + action_result) \<times> d1" where
  "rate_limit_stage ip content limiter ai docId quotaResult db =
     (case limiter of
        Inr False \<Rightarrow>
          (case refund_quota ip db of
             (Inl e, db1) \<Rightarrow> moderation_stage ip content ai docId quotaResult db1
           | (Inr _, db1) \<Rightarrow>
               (Inr (ActionError (Some rate_limit_message) None), db1))
      | _ \<Rightarrow> moderation_stage ip content ai docId quotaResult db)"

text \<open>
  The action. \<open>content\<close> is the form field (\<open>None\<close> when absent), \<open>docId\<close>
  the value \<open>generateShortId\<close> draws.
\<close>

definition action ::
  "request_headers \<Rightarrow> js_string option \<Rightarrow> exn + bool \<Rightarrow> (js_string \<Rightarrow> exn + ai_reply option) \<Rightarrow>
   string \<Rightarrow> instant \<Rightarrow> instant \<Rightarrow> d1 \<Rightarrow> (exn + action_result) \<times> d1" where
  "action headers form_content limiter ai docId now dbnow db =
     (case form_content of
        None \<Rightarrow> (Inr (ActionError (Some (lit ''Content is required'')) None), db)
      | Some [] \<Rightarrow> (Inr (ActionError (Some (lit ''Content is required'')) None), db)
      | Some (c # cs) \<Rightarrow>
          (let content = c # cs;
               ip = getClientIP headers;
               contentSize = utf8_length content
           in if of_nat contentSize > maxSize then
                (Inr (ActionError (Some (too_large_message contentSize)) None), db)
              else
                (case consumeQuota ip ''publish'' 1 None now dbnow db of
                   (Inl e, db1) \<Rightarrow> (Inl e, db1)
                 | (Inr quotaResult, db1) \<Rightarrow>
                     if \<not> success quotaResult then
                       (Inr (ActionError (error quotaResult) (quota quotaResult)), db1)
                     else rate_limit_stage ip content limiter ai docId quotaResult db1)))"

subsection \<open>routes/api.quota.ts: the loader\<close>

text \<open>
  The statistics endpoint: \<open>null\<close> from \<open>getUsageStats\<close> becomes the 500
  response, statistics are returned with every dot of the address replaced by a star.
\<close>

datatype api_response = Status500 | StatsJson string UsageStats

definition api_quota_loader ::
  "request_headers \<Rightarrow> instant \<Rightarrow> instant \<Rightarrow> int \<Rightarrow> d1 \<Rightarrow> (exn + api_response) \<times> d1" where
  "api_quota_loader headers now today tz db =
     (let ip = getClientIP headers
      in case getUsageStats ip now today tz db of
        (Inl e, db1) \<Rightarrow> (Inr Status500, db1)
      | (Inr None, db1) \<Rightarrow> (Inr Status500, db1)
      | (Inr (Some stats), db1) \<Rightarrow>
          (Inr (StatsJson (map (\<lambda>c. if c = CHR ''.'' then CHR ''*'' else c) ip) stats), db1))"

section \<open>Reference states\<close>

text \<open>The database right after schema.sql has run: three empty tables, a healthy store.\<close>

definition empty_db :: d1 where
  "empty_db = \<lparr>quotas = Map.empty, operations = [], documents = Map.empty, faults = []\<rparr>"

text \<open>The storage engine executes the next \<open>k\<close> statements without failing.\<close>

definition healthy :: "nat \<Rightarrow> d1 \<Rightarrow> bool" where
  "healthy k db = (True \<notin> set (take k (faults db)))"

text \<open>
  Every statement takes one entry off the fault plan, so the entries a call has used
  are the front of \<open>faults db\<close> that is missing from the plan of the database
  \<open>db'\<close> it returns; \<open>threw db db'\<close> says one of its statements threw.
\<close>

definition threw :: "d1 \<Rightarrow> d1 \<Rightarrow> bool" where
  "threw db db' = (True \<in> set (take (length (faults db) - length (faults db')) (faults db)))"

text \<open>A healthy store holding one quota record.\<close>

definition db_with :: "string \<Rightarrow> int \<Rightarrow> instant \<Rightarrow> d1" where
  "db_with ip n t = empty_db\<lparr>quotas := [ip \<mapsto> \<lparr>remaining_operations = n, last_reset = t\<rparr>]\<rparr>"


text \<open>A visitor, a stored document, and a store holding both.\<close>

definition visitor :: request_headers where
  "visitor = \<lparr>cf_connecting_ip = Some ''203.0.113.7'', x_forwarded_for = None\<rparr>"



section \<open>Requests in sequence\<close>

text \<open>
  The stored remaining value of an address lies in \<open>[0, FREE_QUOTA]\<close>
  (\<open>in_range\<close>), or below the limit so that one refund fits (\<open>has_room\<close>);
  \<open>ready ip ip'\<close> is the state of address \<open>ip'\<close> between a successful
  one-unit consume for \<open>ip\<close> and its refund.
\<close>

definition in_range :: "string \<Rightarrow> d1 \<Rightarrow> bool" where
  "in_range ip db =
     (case quotas db ip of
        None \<Rightarrow> True
      | Some row \<Rightarrow> 0 \<le> remaining_operations row \<and> remaining_operations row \<le> FREE_QUOTA)"

definition has_room :: "string \<Rightarrow> d1 \<Rightarrow> bool" where
  "has_room ip db =
     (case quotas db ip of
        None \<Rightarrow> True
      | Some row \<Rightarrow> 0 \<le> remaining_operations row \<and> remaining_operations row < FREE_QUOTA)"

definition ready :: "string \<Rightarrow> string \<Rightarrow> d1 \<Rightarrow> bool" where
  "ready ip ip' db = (in_range ip' db \<and> (ip' = ip \<longrightarrow> has_room ip db))"

text \<open>
  What reaches the quota tables: the four routes, and direct calls of
  \<open>consumeQuota\<close> and \<open>checkQuota\<close>. \<open>serve_all\<close> is a run in which the
  requests do not overlap: each is served to its end on the database the one before
  left. Requests whose statements interleave are the subject of the next section.
\<close>

datatype request =
    Publish request_headers "js_string option" "exn + bool"
      "js_string \<Rightarrow> exn + ai_reply option" string instant instant
  | View string request_headers instant instant
  | Home request_headers instant
  | Stats request_headers instant instant int
  | Consume string string int "string option" instant instant
  | Check string instant

fun serve :: "request \<Rightarrow> d1 \<Rightarrow> d1" where
  "serve (Publish headers form_content limiter ai docId now dbnow) db =
     snd (action headers form_content limiter ai docId now dbnow db)"
| "serve (View docId headers now dbnow) db = snd (document_loader docId headers now dbnow db)"
| "serve (Home headers now) db = snd (home_loader headers now db)"
| "serve (Stats headers now today tz) db = snd (api_quota_loader headers now today tz db)"
| "serve (Consume ip ty n doc now dbnow) db = snd (consumeQuota ip ty n doc now dbnow db)"
| "serve (Check ip now) db = snd (checkQuota ip now db)"

definition serve_all :: "request list \<Rightarrow> d1 \<Rightarrow> d1" where
  "serve_all rs db = foldl (\<lambda>d r. serve r d) db rs"

fun count_ok :: "request \<Rightarrow> bool" where
  "count_ok (Consume ip ty n doc now dbnow) = (0 \<le> n)"
| "count_ok r = True"

text \<open>
  The stored remaining value of an address, and the value after the one-unit credit
  that goes with an error answer of the publish action.
\<close>

definition stored :: "string \<Rightarrow> d1 \<Rightarrow> int option" where
  "stored ip db = map_option remaining_operations (quotas db ip)"



text \<open>An AI binding that is down.\<close>

definition failing_ai :: "js_string \<Rightarrow> exn + ai_reply option" where
  "failing_ai prompt = Inl CollaboratorError"


definition charged_db :: d1 where
  "charged_db =
     (db_with ''203.0.113.7'' 4 1700000000000)\<lparr>operations :=
        [\<lparr>op_id = 1, ip_address = ''203.0.113.7'', operation_type = ''publish'',
          operation_count = 1, document_id = None,
          created_at = CURRENT_TIMESTAMP 1700000002000\<rparr>]\<rparr>"

section \<open>Requests that overlap\<close>

text \<open>
  A Worker runs a request up to its next \<open>await\<close>; while the awaited statement or
  call is pending, other requests run. A request in progress is a process: it is done
  with a result, or it waits at an awaited step. A step runs in one piece on the
  database: \<open>Await resume store\<close> leaves the database \<open>store db\<close> and goes on
  as \<open>resume db\<close>.
\<close>

datatype 'r proc = Done 'r | Await "d1 \<Rightarrow> 'r proc" "d1 \<Rightarrow> d1"

text \<open>
  \<open>await stmt k\<close> awaits a prepared statement and hands its outcome to the rest
  \<open>k\<close> of the request; \<open>pause p\<close> awaits a call that does not touch the database
  (the rate limiter, the AI binding).
\<close>

definition await :: "(d1 \<Rightarrow> (exn + 'a) \<times> d1) \<Rightarrow> (exn + 'a \<Rightarrow> 'r proc) \<Rightarrow> 'r proc" where
  "await stmt k = Await (\<lambda>db. k (fst (stmt db))) (\<lambda>db. snd (stmt db))"

definition pause :: "'r proc \<Rightarrow> 'r proc" where
  "pause p = Await (\<lambda>db. p) (\<lambda>db. db)"

text \<open>A request that runs to its end with no other request in between.\<close>

primrec exec :: "'r proc \<Rightarrow> d1 \<Rightarrow> 'r \<times> d1" where
  "exec (Done r) db = (r, db)"
| "exec (Await resume store) db = exec (resume db) (store db)"

text \<open>
  Requests in flight together: the schedule names, step by step, the request whose
  awaited step completes next. A request that is done stays as it is.
\<close>

fun step :: "'r proc \<Rightarrow> d1 \<Rightarrow> 'r proc \<times> d1" where
  "step (Done r) db = (Done r, db)"
| "step (Await resume store) db = (resume db, store db)"

fun interleave :: "nat list \<Rightarrow> 'r proc list \<Rightarrow> d1 \<Rightarrow> 'r proc list \<times> d1" where
  "interleave [] ps db = (ps, db)"
| "interleave (i # sched) ps db =
     (if i < length ps then
        (case step (ps ! i) db of (p, db') \<Rightarrow> interleave sched (ps[i := p]) db')
      else interleave sched ps db)"

text \<open>
  \<open>checkQuota\<close>, \<open>consumeQuota\<close> and the publish action of routes/home.tsx,
  statement by statement; each awaited statement and each awaited collaborator call is
  a step of its own. Run without a break (\<open>exec\<close>) they are the functions above.
\<close>

definition checkQuota_proc :: "string \<Rightarrow> instant \<Rightarrow> (exn + QuotaInfo \<Rightarrow> 'r proc) \<Rightarrow> 'r proc" where
  "checkQuota_proc ip now k =
     await (select_quota ip) (\<lambda>r. case r of
        Inl e \<Rightarrow> k (Inl e)
      | Inr None \<Rightarrow>
          await (insert_quota ip FREE_QUOTA now) (\<lambda>r2. case r2 of
             Inl e \<Rightarrow> k (Inl e)
           | Inr _ \<Rightarrow>
               k (Inr \<lparr>info_ip = ip, remaining = FREE_QUOTA, total = FREE_QUOTA,
                       resetTime = now + QUOTA_RESET_HOURS * 60 * 60 * 1000,
                       isNewUser = True\<rparr>))
      | Inr (Some existing) \<Rightarrow>
          (let lastReset = last_reset existing;
               hoursSinceReset = (of_int (now - lastReset) :: rat) / (1000 * 60 * 60)
           in if hoursSinceReset \<ge> of_int QUOTA_RESET_HOURS then
                await (update_quota_reset ip FREE_QUOTA now) (\<lambda>r2. case r2 of
                   Inl e \<Rightarrow> k (Inl e)
                 | Inr _ \<Rightarrow>
                     k (Inr \<lparr>info_ip = ip, remaining = FREE_QUOTA, total = FREE_QUOTA,
                             resetTime = now + QUOTA_RESET_HOURS * 60 * 60 * 1000,
                             isNewUser = False\<rparr>))
              else
                k (Inr \<lparr>info_ip = ip, remaining = remaining_operations existing,
                        total = FREE_QUOTA,
                        resetTime = lastReset + QUOTA_RESET_HOURS * 60 * 60 * 1000,
                        isNewUser = False\<rparr>)))"

definition consumeQuota_proc ::
  "string \<Rightarrow> string \<Rightarrow> int \<Rightarrow> string option \<Rightarrow> instant \<Rightarrow> instant \<Rightarrow>
   (exn + OperationResult \<Rightarrow> 'r proc) \<Rightarrow> 'r proc" where
  "consumeQuota_proc ip operationType operationCount documentId now dbnow k =
     checkQuota_proc ip now (\<lambda>r. case r of
        Inl e \<Rightarrow> k (Inr failed_result)
      | Inr quotaInfo \<Rightarrow>
          if remaining quotaInfo < operationCount then
            k (Inr \<lparr>success = False, quota = Some quotaInfo,
                    error = Some (insufficient_message (remaining quotaInfo) operationCount)\<rparr>)
          else
            (let newRemaining = remaining quotaInfo - operationCount
             in await (update_quota_remaining ip newRemaining) (\<lambda>r2. case r2 of
                  Inl e \<Rightarrow> k (Inr failed_result)
                | Inr _ \<Rightarrow>
                    await (insert_operation ip operationType operationCount
                             (or_null documentId) dbnow) (\<lambda>r3. case r3 of
                       Inl e \<Rightarrow> k (Inr failed_result)
                     | Inr _ \<Rightarrow>
                         k (Inr \<lparr>success = True,
                                 quota = Some (quotaInfo\<lparr>remaining := newRemaining\<rparr>),
                                 error = None\<rparr>)))))"

definition save_proc ::
  "string \<Rightarrow> js_string \<Rightarrow> string \<Rightarrow> OperationResult \<Rightarrow> (exn + action_result) proc" where
  "save_proc ip content docId quotaResult =
     (let failed = await (refund_quota ip) (\<lambda>r. case r of
            Inl e \<Rightarrow> Done (Inl e)
          | Inr _ \<Rightarrow> Done (Inr (ActionError (Some (lit ''Failed to save document'')) None)))
      in await (insert_document docId ''Untitled Document'' content) (\<lambda>r. case r of
           Inl e \<Rightarrow> failed
         | Inr _ \<Rightarrow>
             await (attach_document_id docId ip) (\<lambda>r2. case r2 of
                Inl e \<Rightarrow> failed
              | Inr _ \<Rightarrow> Done (Inr (ActionSuccess docId (quota quotaResult))))))"

definition moderation_proc ::
  "string \<Rightarrow> js_string \<Rightarrow> (js_string \<Rightarrow> exn + ai_reply option) \<Rightarrow> string \<Rightarrow> OperationResult \<Rightarrow>
   (exn + action_result) proc" where
  "moderation_proc ip content ai docId quotaResult =
     pause
       (let moderationResult = moderateContent content ai
        in if \<not> safe moderationResult then
             await (refund_quota ip) (\<lambda>r. case r of
                Inl e \<Rightarrow> save_proc ip content docId quotaResult
              | Inr _ \<Rightarrow>
                  Done (Inr (ActionError (Some (blocked_message (reason moderationResult))) None)))
           else save_proc ip content docId quotaResult)"

definition rate_limit_proc ::
  "string \<Rightarrow> js_string \<Rightarrow> exn + bool \<Rightarrow> (js_string \<Rightarrow> exn + ai_reply option) \<Rightarrow> string \<Rightarrow>
   OperationResult \<Rightarrow> (exn + action_result) proc" where
  "rate_limit_proc ip content limiter ai docId quotaResult =
     pause
       (case limiter of
          Inr False \<Rightarrow>
            await (refund_quota ip) (\<lambda>r. case r of
               Inl e \<Rightarrow> moderation_proc ip content ai docId quotaResult
             | Inr _ \<Rightarrow> Done (Inr (ActionError (Some rate_limit_message) None)))
        | _ \<Rightarrow> moderation_proc ip content ai docId quotaResult)"

definition action_proc ::
  "request_headers \<Rightarrow> js_string option \<Rightarrow> exn + bool \<Rightarrow> (js_string \<Rightarrow> exn + ai_reply option) \<Rightarrow>
   string \<Rightarrow> instant \<Rightarrow> instant \<Rightarrow> (exn + action_result) proc" where
  "action_proc headers form_content limiter ai docId now dbnow =
     (case form_content of
        None \<Rightarrow> Done (Inr (ActionError (Some (lit ''Content is required'')) None))
      | Some [] \<Rightarrow> Done (Inr (ActionError (Some (lit ''Content is required'')) None))
      | Some (c # cs) \<Rightarrow>
          (let content = c # cs;
               ip = getClientIP headers;
               contentSize = utf8_length content
           in if of_nat contentSize > maxSize then
                Done (Inr (ActionError (Some (too_large_message contentSize)) None))
              else
                consumeQuota_proc ip ''publish'' 1 None now dbnow (\<lambda>r. case r of
                   Inl e \<Rightarrow> Done (Inl e)
                 | Inr quotaResult \<Rightarrow>
                     if \<not> success quotaResult then
                       Done (Inr (ActionError (error quotaResult) (quota quotaResult)))
                     else rate_limit_proc ip content limiter ai docId quotaResult)))"

text \<open>
  Two publish requests of the visitor, both turned down by the rate limiter.
\<close>

definition two_publishes :: "(exn + action_result) proc list" where
  "two_publishes =
     [action_proc visitor (Some (lit ''# One'')) (Inr False) failing_ai ''a1b2c3d4''
        1700000001000 1700000001000,
      action_proc visitor (Some (lit ''# Two'')) (Inr False) failing_ai ''e5f6a7b8''
        1700000001000 1700000001000]"

section \<open>Statements on a healthy store\<close>

lemma run_healthy:
  "healthy (Suc k) db \<Longrightarrow> run stmt db = stmt (db\<lparr>faults := tl (faults db)\<rparr>)"
  by (cases db) (auto simp: run_def healthy_def split: list.splits)

lemma healthy_tl: "healthy (Suc k) db \<Longrightarrow> healthy k (db\<lparr>faults := tl (faults db)\<rparr>)"
  by (cases "faults db") (auto simp: healthy_def)

lemma healthy_empty_db: "healthy k empty_db"
  by (simp add: healthy_def empty_db_def)

lemma healthy_fields [simp]:
  "healthy k (db\<lparr>quotas := q\<rparr>) = healthy k db"
  "healthy k (db\<lparr>operations := os\<rparr>) = healthy k db"
  "healthy k (db\<lparr>documents := ds\<rparr>) = healthy k db"
  by (simp_all add: healthy_def)

lemma healthy_mono: "j \<le> k \<Longrightarrow> healthy k db \<Longrightarrow> healthy j db"
  unfolding healthy_def using set_take_subset_set_take [of j k "faults db"] by blast

lemma healthy_tl_fields:
  "healthy (Suc k) db \<Longrightarrow> healthy k (db\<lparr>quotas := q, faults := tl (faults db)\<rparr>)"
  "healthy (Suc k) db \<Longrightarrow> healthy k (db\<lparr>operations := os, faults := tl (faults db)\<rparr>)"
  "healthy (Suc k) db \<Longrightarrow> healthy k (db\<lparr>documents := ds, faults := tl (faults db)\<rparr>)"
  using healthy_tl [of k db] by (simp_all add: healthy_def)

lemma update_quota_remaining_healthy:
  "healthy (Suc k) db \<Longrightarrow> quotas db ip = Some row \<Longrightarrow>
   update_quota_remaining ip n db =
     (Inr (), db\<lparr>quotas := (quotas db)(ip \<mapsto> row\<lparr>remaining_operations := n\<rparr>),
                faults := tl (faults db)\<rparr>)"
  by (simp add: update_quota_remaining_def run_healthy)+

lemma insert_operation_healthy:
  "healthy (Suc k) db \<Longrightarrow>
   insert_operation ip ty n doc dbnow db =
     (Inr (), db\<lparr>operations := operations db @
        [\<lparr>op_id = next_op_id (operations db), ip_address = ip, operation_type = ty,
          operation_count = n, document_id = doc,
          created_at = CURRENT_TIMESTAMP dbnow\<rparr>],
        faults := tl (faults db)\<rparr>)"
  by (simp add: insert_operation_def run_healthy)+

lemma healthy_db_with: "healthy k (db_with ip n t)"
  by (simp add: healthy_def db_with_def empty_db_def)

lemma db_with_tl: "(db_with ip n t)\<lparr>faults := tl (faults (db_with ip n t))\<rparr> = db_with ip n t"
  by (simp add: db_with_def empty_db_def)

section \<open>What each statement does\<close>

lemma run_elim:
  assumes "run stmt db = (r, db')"
  obtains fs where "r = Inl D1Error" and "db' = db\<lparr>faults := fs\<rparr>"
  | fs where "stmt (db\<lparr>faults := fs\<rparr>) = (r, db')"
proof (cases "faults db")
  case Nil
  then have "db\<lparr>faults := []\<rparr> = db" by (cases db) simp
  with assms Nil that(2) [of "[]"] show ?thesis by (simp add: run_def)
next
  case (Cons f fs)
  with assms that show ?thesis by (cases f) (auto simp: run_def)
qed

lemma select_quota_effect:
  assumes "select_quota ip db = (r, db')"
  shows "quotas db' = quotas db \<and> operations db' = operations db \<and> documents db' = documents db \<and>
         (r = Inl D1Error \<or> r = Inr (quotas db ip))"
  using assms unfolding select_quota_def by (elim run_elim) auto

lemma insert_quota_effect:
  assumes "insert_quota ip n t db = (r, db')"
  shows "operations db' = operations db \<and> documents db' = documents db \<and>
         ((\<exists>e. r = Inl e) \<and> quotas db' = quotas db \<or>
          r = Inr () \<and> quotas db ip = None \<and>
          quotas db' = (quotas db)(ip \<mapsto> \<lparr>remaining_operations = n, last_reset = t\<rparr>))"
  using assms unfolding insert_quota_def by (elim run_elim) (auto split: option.splits)

lemma update_quota_reset_effect:
  assumes "update_quota_reset ip n t db = (r, db')"
  shows "operations db' = operations db \<and> documents db' = documents db \<and>
         (r = Inl D1Error \<and> quotas db' = quotas db \<or>
          r = Inr () \<and> quotas db' = (case quotas db ip of None \<Rightarrow> quotas db
             | Some row \<Rightarrow> (quotas db)(ip \<mapsto> row\<lparr>remaining_operations := n, last_reset := t\<rparr>)))"
  using assms unfolding update_quota_reset_def by (elim run_elim) (auto split: option.splits)

lemma update_quota_remaining_effect:
  assumes "update_quota_remaining ip n db = (r, db')"
  shows "operations db' = operations db \<and> documents db' = documents db \<and>
         (r = Inl D1Error \<and> quotas db' = quotas db \<or>
          r = Inr () \<and> quotas db' = (case quotas db ip of None \<Rightarrow> quotas db
             | Some row \<Rightarrow> (quotas db)(ip \<mapsto> row\<lparr>remaining_operations := n\<rparr>)))"
  using assms unfolding update_quota_remaining_def by (elim run_elim) (auto split: option.splits)

lemma refund_quota_effect:
  assumes "refund_quota ip db = (r, db')"
  shows "operations db' = operations db \<and> documents db' = documents db \<and>
         (r = Inl D1Error \<and> quotas db' = quotas db \<or>
          r = Inr () \<and> quotas db' = (case quotas db ip of None \<Rightarrow> quotas db
             | Some row \<Rightarrow> (quotas db)(ip \<mapsto> row\<lparr>remaining_operations := remaining_operations row + 1\<rparr>)))"
  using assms unfolding refund_quota_def by (elim run_elim) (auto split: option.splits)

lemma insert_operation_effect:
  assumes "insert_operation ip ty n doc dbnow db = (r, db')"
  shows "quotas db' = quotas db \<and> documents db' = documents db \<and>
         (r = Inl D1Error \<and> operations db' = operations db \<or>
          r = Inr () \<and> operations db' = operations db @
            [\<lparr>op_id = next_op_id (operations db), ip_address = ip, operation_type = ty,
              operation_count = n, document_id = doc, created_at = CURRENT_TIMESTAMP dbnow\<rparr>])"
  using assms unfolding insert_operation_def by (elim run_elim) auto

lemma insert_document_effect:
  assumes "insert_document docId t c db = (r, db')"
  shows "quotas db' = quotas db \<and> operations db' = operations db"
  using assms unfolding insert_document_def by (elim run_elim) (auto split: option.splits)

lemma attach_document_id_effect:
  assumes "attach_document_id docId ip db = (r, db')"
  shows "quotas db' = quotas db"
  using assms unfolding attach_document_id_def by (elim run_elim) (auto split: option.splits)

lemma select_document_effect:
  assumes "select_document docId db = (r, db')"
  shows "quotas db' = quotas db \<and> operations db' = operations db \<and> documents db' = documents db \<and>
         (r = Inl D1Error \<or> r = Inr (documents db docId))"
  using assms unfolding select_document_def by (elim run_elim) auto

lemma select_usage_effect:
  assumes "select_usage ip bound db = (r, db')"
  shows "quotas db' = quotas db \<and> operations db' = operations db"
  using assms unfolding select_usage_def by (elim run_elim) auto

lemma expired_iff:
  "((of_int (now - lastReset) :: rat) / (1000 * 60 * 60) \<ge> of_int QUOTA_RESET_HOURS)
   = (now - lastReset \<ge> 86400000)"
proof -
  have "((of_int (now - lastReset) :: rat) / 3600000 \<ge> 24) = ((of_int (now - lastReset) :: rat) \<ge> of_int 86400000)"
    by (simp add: le_divide_eq)
  also have "\<dots> = (now - lastReset \<ge> 86400000)"
    by (simp only: of_int_le_iff)
  finally show ?thesis by (simp add: QUOTA_RESET_HOURS_def)
qed

section \<open>What checkQuota and consumeQuota do\<close>

lemma checkQuota_effect:
  assumes "checkQuota ip now db = (r, db')"
  shows "operations db' = operations db \<and> documents db' = documents db \<and>
    (case r of
       Inl e \<Rightarrow> quotas db' = quotas db
     | Inr qi \<Rightarrow> info_ip qi = ip \<and> total qi = FREE_QUOTA \<and>
        (case quotas db ip of
           None \<Rightarrow> remaining qi = FREE_QUOTA \<and> isNewUser qi \<and> resetTime qi = now + 86400000 \<and>
             quotas db' = (quotas db)(ip \<mapsto> \<lparr>remaining_operations = FREE_QUOTA, last_reset = now\<rparr>)
         | Some row \<Rightarrow> \<not> isNewUser qi \<and>
             (if now - last_reset row \<ge> 86400000
              then remaining qi = FREE_QUOTA \<and> resetTime qi = now + 86400000 \<and>
                   quotas db' = (quotas db)(ip \<mapsto> row\<lparr>remaining_operations := FREE_QUOTA, last_reset := now\<rparr>)
              else remaining qi = remaining_operations row \<and>
                   resetTime qi = last_reset row + 86400000 \<and> quotas db' = quotas db)))"
proof -
  obtain r1 db1 where s: "select_quota ip db = (r1, db1)" by (cases "select_quota ip db")
  note e1 = select_quota_effect [OF s]
  show ?thesis
  proof (cases r1)
    case (Inl e)
    with assms s e1 show ?thesis by (auto simp: checkQuota_def)
  next
    case (Inr existing)
    with e1 have ex: "existing = quotas db ip" by auto
    show ?thesis
    proof (cases existing)
      case None
      obtain r2 db2 where i: "insert_quota ip FREE_QUOTA now db1 = (r2, db2)"
        by (cases "insert_quota ip FREE_QUOTA now db1")
      note e2 = insert_quota_effect [OF i]
      from assms s Inr None i e1 e2 ex show ?thesis
        by (cases r2) (auto simp: checkQuota_def QUOTA_RESET_HOURS_def)
    next
      case (Some row)
      show ?thesis
      proof (cases "now - last_reset row \<ge> 86400000")
        case True
        obtain r2 db2 where u: "update_quota_reset ip FREE_QUOTA now db1 = (r2, db2)"
          by (cases "update_quota_reset ip FREE_QUOTA now db1")
        note e2 = update_quota_reset_effect [OF u]
        from assms s Inr Some u e1 e2 ex True show ?thesis
          by (cases r2) (auto simp: checkQuota_def expired_iff QUOTA_RESET_HOURS_def)
      next
        case False
        from assms s Inr Some e1 ex False show ?thesis
          by (auto simp: checkQuota_def expired_iff QUOTA_RESET_HOURS_def)
      qed
    qed
  qed
qed

lemma checkQuota_stored:
  assumes "checkQuota ip now db = (Inr qi, db')"
  shows "\<exists>row. quotas db' ip = Some row \<and> remaining_operations row = remaining qi"
  using checkQuota_effect [OF assms] by (auto split: option.splits if_splits)

lemma consumeQuota_effect:
  assumes c: "checkQuota ip now db = (rc, dbc)"
    and a: "consumeQuota ip ty n doc now dbnow db = (r, db')"
  shows "documents db' = documents db \<and> (\<exists>res. r = Inr res \<and>
    (case rc of
       Inl e \<Rightarrow> res = failed_result \<and> db' = dbc
     | Inr qi \<Rightarrow>
         if remaining qi < n then
           res = \<lparr>success = False, quota = Some qi,
                  error = Some (insufficient_message (remaining qi) n)\<rparr> \<and> db' = dbc
         else (\<exists>row. quotas dbc ip = Some row \<and> remaining_operations row = remaining qi \<and>
           (res = failed_result \<and> quotas db' = quotas dbc \<and> operations db' = operations db \<or>
            res = failed_result \<and> operations db' = operations db \<and>
              quotas db' = (quotas dbc)(ip \<mapsto> row\<lparr>remaining_operations := remaining qi - n\<rparr>) \<or>
            res = \<lparr>success = True, quota = Some (qi\<lparr>remaining := remaining qi - n\<rparr>), error = None\<rparr> \<and>
              quotas db' = (quotas dbc)(ip \<mapsto> row\<lparr>remaining_operations := remaining qi - n\<rparr>) \<and>
              operations db' = operations db @
                [\<lparr>op_id = next_op_id (operations db), ip_address = ip, operation_type = ty,
                  operation_count = n, document_id = or_null doc,
                  created_at = CURRENT_TIMESTAMP dbnow\<rparr>]))))"
proof -
  note ec = checkQuota_effect [OF c]
  show ?thesis
  proof (cases rc)
    case (Inl e)
    with a c ec show ?thesis by (auto simp: consumeQuota_def failed_result_def)
  next
    case (Inr qi)
    from checkQuota_stored c Inr obtain row where
      row: "quotas dbc ip = Some row" "remaining_operations row = remaining qi" by blast
    show ?thesis
    proof (cases "remaining qi < n")
      case True
      with a c ec Inr show ?thesis by (auto simp: consumeQuota_def)
    next
      case False
      obtain r2 db2 where u: "update_quota_remaining ip (remaining qi - n) dbc = (r2, db2)"
        by (cases "update_quota_remaining ip (remaining qi - n) dbc")
      note e2 = update_quota_remaining_effect [OF u]
      show ?thesis
      proof (cases r2)
        case (Inl e2')
        with a c ec Inr False u e2 row show ?thesis
          by (auto simp: consumeQuota_def failed_result_def)
      next
        case (Inr u2)
        obtain r3 db3 where i: "insert_operation ip ty n (or_null doc) dbnow db2 = (r3, db3)"
          by (cases "insert_operation ip ty n (or_null doc) dbnow db2")
        note e3 = insert_operation_effect [OF i]
        from a c ec \<open>rc = Inr qi\<close> False u e2 row Inr i e3 show ?thesis
          by (cases r3) (auto simp: consumeQuota_def failed_result_def)
      qed
    qed
  qed
qed

section \<open>checkQuota\<close>

text \<open>An address without a record: the record is created (SELECT, INSERT).\<close>

lemma checkQuota_absent:
  assumes "quotas db ip = None" and "healthy 2 db"
  shows "checkQuota ip now db =
     (Inr \<lparr>info_ip = ip, remaining = FREE_QUOTA, total = FREE_QUOTA,
           resetTime = now + 24 * 60 * 60 * 1000, isNewUser = True\<rparr>,
      db\<lparr>quotas := (quotas db)(ip \<mapsto>
            \<lparr>remaining_operations = FREE_QUOTA, last_reset = now\<rparr>),
         faults := drop 2 (faults db)\<rparr>)"
proof -
  have h1: "healthy (Suc 1) db"
    using assms(2) by (simp add: numeral_2_eq_2)
  have h2: "healthy (Suc 0) (db\<lparr>faults := tl (faults db)\<rparr>)"
    using healthy_tl [OF h1] by simp
  show ?thesis
    using assms(1)
    by (simp add: checkQuota_def select_quota_def insert_quota_def run_healthy [OF h1]
        run_healthy [OF h2] QUOTA_RESET_HOURS_def drop_Suc numeral_2_eq_2 drop_tl)
qed

text \<open>
  C5. An identity with no quota record: the first \<open>checkQuota\<close> stores a record with
  \<open>remaining_operations = FREE_QUOTA\<close> and \<open>last_reset = now\<close>, and returns
  \<open>remaining = total = FREE_QUOTA\<close>, \<open>isNewUser = true\<close> and
  \<open>resetTime = now + 24 h\<close>. The two statements it runs (the SELECT and the
  INSERT) are assumed not to fail.
\<close>

theorem checkQuota_first_time:
  assumes "quotas db ip = None" and "healthy 2 db"
  shows "checkQuota ip now db =
     (Inr \<lparr>info_ip = ip, remaining = FREE_QUOTA, total = FREE_QUOTA,
           resetTime = now + 24 * 60 * 60 * 1000, isNewUser = True\<rparr>,
      db\<lparr>quotas := (quotas db)(ip \<mapsto>
            \<lparr>remaining_operations = FREE_QUOTA, last_reset = now\<rparr>),
         faults := drop 2 (faults db)\<rparr>)"
  using assms by (rule checkQuota_absent)

theorem checkQuota_first_time_witness:
  "quotas empty_db ''203.0.113.7'' = None \<and> healthy 2 empty_db \<and>
   checkQuota ''203.0.113.7'' 1700000000000 empty_db =
     (Inr \<lparr>info_ip = ''203.0.113.7'', remaining = 50, total = 50,
           resetTime = 1700086400000, isNewUser = True\<rparr>,
      empty_db\<lparr>quotas := [''203.0.113.7'' \<mapsto>
            \<lparr>remaining_operations = 50, last_reset = 1700000000000\<rparr>]\<rparr>)"
proof -
  have a: "quotas empty_db ''203.0.113.7'' = None"
    by (simp add: empty_db_def)
  show ?thesis
    using checkQuota_first_time [OF a healthy_empty_db, of 1700000000000]
    by (simp add: empty_db_def healthy_def FREE_QUOTA_def)
qed

lemma checkQuota_in_window:
  assumes "quotas db ip = Some row"
    and "now - last_reset row < 24 * 60 * 60 * 1000"
    and "healthy 1 db"
  shows "checkQuota ip now db =
     (Inr \<lparr>info_ip = ip, remaining = remaining_operations row, total = FREE_QUOTA,
           resetTime = last_reset row + 24 * 60 * 60 * 1000, isNewUser = False\<rparr>,
      db\<lparr>faults := tl (faults db)\<rparr>)"
proof -
  have h1: "healthy (Suc 0) db"
    using assms(3) by simp
  show ?thesis
    using assms(1,2)
    by (simp add: checkQuota_def select_quota_def run_healthy [OF h1] expired_iff
        QUOTA_RESET_HOURS_def)
qed




section \<open>consumeQuota\<close>

text \<open>Not enough quota: the call answers with the state \<open>checkQuota\<close> left.\<close>

lemma consumeQuota_refused:
  assumes "checkQuota ip now db = (Inr quotaInfo, db1)"
    and "remaining quotaInfo < operationCount"
  shows "consumeQuota ip operationType operationCount documentId now dbnow db =
     (Inr \<lparr>success = False, quota = Some quotaInfo,
           error = Some (insufficient_message (remaining quotaInfo) operationCount)\<rparr>, db1) \<and>
     operations db1 = operations db \<and> documents db1 = documents db \<and>
     (\<forall>row. quotas db ip = Some row \<and> now - last_reset row < 24 * 60 * 60 * 1000 \<longrightarrow>
        quotas db1 = quotas db \<and> remaining quotaInfo = remaining_operations row)"
  using assms checkQuota_effect [OF assms(1)]
  by (auto simp: consumeQuota_def)

text \<open>
  C2. When the remaining value \<open>checkQuota\<close> reports (after its window check) is
  less than \<open>operationCount\<close>, both safe integers, \<open>consumeQuota\<close> returns
  \<open>success = false\<close> with that \<open>QuotaInfo\<close> and the insufficient-quota message
  (the two numbers in decimal digits), and the database is the one \<open>checkQuota\<close>
  left: nothing is deducted and nothing is logged. For a record inside its window the
  quota table is the one before the call; with remaining 0 and count 1 the call fails
  and remaining stays 0.
\<close>

theorem consumeQuota_insufficient:
  assumes "checkQuota ip now db = (Inr quotaInfo, db1)"
    and "remaining quotaInfo < operationCount"
    and "safe_integer (remaining quotaInfo)"
    and "safe_integer operationCount"
  shows "consumeQuota ip operationType operationCount documentId now dbnow db =
     (Inr \<lparr>success = False, quota = Some quotaInfo,
           error = Some (insufficient_message (remaining quotaInfo) operationCount)\<rparr>, db1) \<and>
     operations db1 = operations db \<and> documents db1 = documents db \<and>
     (\<forall>row. quotas db ip = Some row \<and> now - last_reset row < 24 * 60 * 60 * 1000 \<longrightarrow>
        quotas db1 = quotas db \<and> remaining quotaInfo = remaining_operations row)"
  using assms(1,2) by (rule consumeQuota_refused)

theorem consumeQuota_insufficient_witness:
  "checkQuota ''203.0.113.7'' 1700000001000 (db_with ''203.0.113.7'' 0 1700000000000) =
     (Inr \<lparr>info_ip = ''203.0.113.7'', remaining = 0, total = 50,
           resetTime = 1700086400000, isNewUser = False\<rparr>,
      db_with ''203.0.113.7'' 0 1700000000000) \<and>
   safe_integer 0 \<and> safe_integer 1 \<and>
   consumeQuota ''203.0.113.7'' ''publish'' 1 None 1700000001000 1700000001000
       (db_with ''203.0.113.7'' 0 1700000000000) =
     (Inr \<lparr>success = False,
           quota = Some \<lparr>info_ip = ''203.0.113.7'', remaining = 0, total = 50,
                         resetTime = 1700086400000, isNewUser = False\<rparr>,
           error = Some (lit ''Insufficient quota. You have 0 documents remaining. This action requires 1 documents.'')\<rparr>,
      db_with ''203.0.113.7'' 0 1700000000000) \<and>
   map_option remaining_operations
     (quotas (db_with ''203.0.113.7'' 0 1700000000000) ''203.0.113.7'') = Some 0"
proof -
  let ?db = "db_with ''203.0.113.7'' 0 1700000000000"
  have q: "quotas ?db ''203.0.113.7'' = Some \<lparr>remaining_operations = 0, last_reset = 1700000000000\<rparr>"
    by (simp add: db_with_def)
  have c: "checkQuota ''203.0.113.7'' 1700000001000 ?db =
     (Inr \<lparr>info_ip = ''203.0.113.7'', remaining = 0, total = 50,
           resetTime = 1700086400000, isNewUser = False\<rparr>, ?db)"
    using checkQuota_in_window [OF q _ healthy_db_with, of 1700000001000]
    by (simp add: db_with_tl FREE_QUOTA_def)
  have s: "safe_integer 0" "safe_integer 1"
    by (simp_all add: safe_integer_def)
  have m: "insufficient_message 0 1 =
      lit ''Insufficient quota. You have 0 documents remaining. This action requires 1 documents.''"
    by (simp add: insufficient_message_def show_int_def lit_def dec.simps)
  show ?thesis
    using consumeQuota_insufficient [OF c, of 1 "''publish''" None 1700000001000] c q s m
    by simp
qed

text \<open>
  A record inside its window whose remaining value covers the count: the call
  succeeds, deducts and logs (three statements, none failing).
\<close>

lemma consumeQuota_in_window_ok:
  assumes "quotas db ip = Some row"
    and "now - last_reset row < 24 * 60 * 60 * 1000"
    and "operationCount \<le> remaining_operations row"
    and "healthy 3 db"
  shows "consumeQuota ip operationType operationCount documentId now dbnow db =
     (Inr \<lparr>success = True,
           quota = Some \<lparr>info_ip = ip, remaining = remaining_operations row - operationCount,
                          total = FREE_QUOTA,
                          resetTime = last_reset row + 24 * 60 * 60 * 1000,
                          isNewUser = False\<rparr>,
           error = None\<rparr>,
      db\<lparr>quotas := (quotas db)(ip \<mapsto>
            row\<lparr>remaining_operations := remaining_operations row - operationCount\<rparr>),
         operations := operations db @
           [\<lparr>op_id = next_op_id (operations db), ip_address = ip,
             operation_type = operationType, operation_count = operationCount,
             document_id = or_null documentId, created_at = CURRENT_TIMESTAMP dbnow\<rparr>],
         faults := drop 3 (faults db)\<rparr>)"
proof -
  have h1: "healthy (Suc 2) db"
    using assms(4) by (simp add: numeral_3_eq_3)
  have h1': "healthy 1 db"
    using healthy_mono [OF _ assms(4), of 1] by simp
  let ?n = "remaining_operations row - operationCount"
  let ?db1 = "db\<lparr>faults := tl (faults db)\<rparr>"
  let ?db2 = "db\<lparr>quotas := (quotas db)(ip \<mapsto> row\<lparr>remaining_operations := ?n\<rparr>),
                faults := tl (tl (faults db))\<rparr>"
  have h2: "healthy (Suc 1) ?db1"
    using healthy_tl [OF h1] by (simp add: numeral_2_eq_2)
  have u: "update_quota_remaining ip ?n ?db1 = (Inr (), ?db2)"
    using update_quota_remaining_healthy [OF h2, of ip row ?n] assms(1) by simp
  have h3: "healthy (Suc 0) ?db2"
    using healthy_tl_fields(1) [OF h2] by simp
  have i: "insert_operation ip operationType operationCount (or_null documentId) dbnow ?db2 =
      (Inr (), ?db2\<lparr>operations := operations ?db2 @
        [\<lparr>op_id = next_op_id (operations ?db2), ip_address = ip, operation_type = operationType,
          operation_count = operationCount, document_id = or_null documentId,
          created_at = CURRENT_TIMESTAMP dbnow\<rparr>],
        faults := tl (faults ?db2)\<rparr>)"
    by (rule insert_operation_healthy [OF h3])
  show ?thesis
    using assms(3)
    by (simp add: consumeQuota_def checkQuota_in_window [OF assms(1,2) h1'] u i
        drop_Suc numeral_3_eq_3 drop_tl Let_def)
qed

text \<open>
  C10. \<open>consumeQuota\<close> does not require \<open>operationCount \<ge> 1\<close>: on a record inside
  its window (with the non-negative remaining value every reachable record has) and
  a count \<open>\<le> 0\<close>, the test \<open>remaining < operationCount\<close> is false, the call
  succeeds, stores \<open>remaining - operationCount\<close> (more than before when the count is
  negative, and possibly more than \<open>FREE_QUOTA\<close>) and logs an operation with that
  count. The difference is a safe integer, and with it the remaining value and the
  count are, so that the subtraction of the code is exact. The three statements are
  assumed not to fail.
\<close>

theorem consumeQuota_nonpositive_count:
  assumes "quotas db ip = Some row"
    and "now - last_reset row < 24 * 60 * 60 * 1000"
    and "0 \<le> remaining_operations row"
    and "operationCount \<le> 0"
    and "safe_integer (remaining_operations row - operationCount)"
    and "healthy 3 db"
  shows "consumeQuota ip operationType operationCount documentId now dbnow db =
     (Inr \<lparr>success = True,
           quota = Some \<lparr>info_ip = ip, remaining = remaining_operations row - operationCount,
                          total = FREE_QUOTA,
                          resetTime = last_reset row + 24 * 60 * 60 * 1000,
                          isNewUser = False\<rparr>,
           error = None\<rparr>,
      db\<lparr>quotas := (quotas db)(ip \<mapsto>
            row\<lparr>remaining_operations := remaining_operations row - operationCount\<rparr>),
         operations := operations db @
           [\<lparr>op_id = next_op_id (operations db), ip_address = ip,
             operation_type = operationType, operation_count = operationCount,
             document_id = or_null documentId, created_at = CURRENT_TIMESTAMP dbnow\<rparr>],
         faults := drop 3 (faults db)\<rparr>) \<and>
     safe_integer (remaining_operations row) \<and> safe_integer operationCount \<and>
     (operationCount < 0 \<longrightarrow>
        remaining_operations row < remaining_operations row - operationCount)"
  using consumeQuota_in_window_ok [OF assms(1,2) _ assms(6)] assms(3,4,5)
  by (simp add: safe_integer_def)

theorem consumeQuota_nonpositive_count_witness:
  "healthy 3 (db_with ''203.0.113.7'' 50 1700000000000) \<and>
   safe_integer (50 - (- 5)) \<and>
   consumeQuota ''203.0.113.7'' ''publish'' (- 5) None 1700000001000 1700000002000
       (db_with ''203.0.113.7'' 50 1700000000000) =
     (Inr \<lparr>success = True,
           quota = Some \<lparr>info_ip = ''203.0.113.7'', remaining = 55, total = 50,
                         resetTime = 1700086400000, isNewUser = False\<rparr>,
           error = None\<rparr>,
      (db_with ''203.0.113.7'' 55 1700000000000)\<lparr>operations :=
         [\<lparr>op_id = 1, ip_address = ''203.0.113.7'', operation_type = ''publish'',
           operation_count = - 5, document_id = None,
           created_at = CURRENT_TIMESTAMP 1700000002000\<rparr>]\<rparr>) \<and>
   FREE_QUOTA < 55"
proof -
  let ?db = "db_with ''203.0.113.7'' 50 1700000000000"
  have q: "quotas ?db ''203.0.113.7'' = Some \<lparr>remaining_operations = 50, last_reset = 1700000000000\<rparr>"
    by (simp add: db_with_def)
  have s: "safe_integer (remaining_operations \<lparr>remaining_operations = 50, last_reset = 1700000000000\<rparr> - (- 5))"
    by (simp add: safe_integer_def)
  show ?thesis
    using consumeQuota_nonpositive_count [OF q _ _ _ s healthy_db_with,
        of 1700000001000 "''publish''" None 1700000002000]
    by (simp add: healthy_db_with FREE_QUOTA_def or_null_def next_op_id_def safe_integer_def)
       (simp add: db_with_def empty_db_def)
qed

section \<open>Faults\<close>

lemma run_fault: "faults db = True # fs \<Longrightarrow> run stmt db = (Inl D1Error, db\<lparr>faults := fs\<rparr>)"
  by (simp add: run_def)

lemma checkQuota_fault:
  "faults db = True # fs \<Longrightarrow> checkQuota ip now db = (Inl D1Error, db\<lparr>faults := fs\<rparr>)"
  by (simp add: checkQuota_def select_quota_def run_fault)

lemma consumeQuota_never_raises:
  "\<exists>res. fst (consumeQuota ip ty n doc now dbnow db) = Inr res \<and> (\<not> success res \<longrightarrow> error res \<noteq> None)"
proof -
  obtain rc dbc where c: "checkQuota ip now db = (rc, dbc)" by (cases "checkQuota ip now db")
  obtain r db' where a: "consumeQuota ip ty n doc now dbnow db = (r, db')"
    by (cases "consumeQuota ip ty n doc now dbnow db")
  from consumeQuota_effect [OF c a] show ?thesis
    unfolding a by (cases rc) (auto simp: failed_result_def split: if_splits)
qed

lemma getUsageStats_never_raises:
  "\<exists>st. fst (getUsageStats ip now today tz db) = Inr st"
  by (auto simp: getUsageStats_def Let_def split: prod.splits sum.splits)

text \<open>
  What a call makes of a throwing statement. The entries of the fault plan a statement
  or a call has used are a front \<open>used\<close> of the plan, and one of them is
  \<open>True\<close> exactly when a statement threw.
\<close>

lemma threw_append:
  "faults db = used @ faults db' \<Longrightarrow> threw db db' = (True \<in> set used)"
  by (simp add: threw_def)

lemma run_spent:
  assumes "run stmt db = (r, db')"
    and "\<And>d r' d'. stmt d = (r', d') \<Longrightarrow> faults d' = faults d \<and> r' \<noteq> Inl D1Error"
  shows "\<exists>used. faults db = used @ faults db' \<and> (True \<in> set used) = (r = Inl D1Error)"
proof (cases "faults db")
  case Nil
  with assms(1) have "stmt db = (r, db')" by (simp add: run_def)
  from assms(2) [OF this] Nil show ?thesis by simp
next
  case (Cons f fs)
  show ?thesis
  proof (cases f)
    case True
    with assms(1) Cons have "r = Inl D1Error" "faults db' = fs" by (auto simp: run_def)
    with Cons True show ?thesis by (intro exI [of _ "[True]"]) simp
  next
    case False
    with assms(1) Cons have "stmt (db\<lparr>faults := fs\<rparr>) = (r, db')" by (simp add: run_def)
    from assms(2) [OF this] Cons False show ?thesis by (intro exI [of _ "[False]"]) simp
  qed
qed

lemma select_quota_spent:
  assumes "select_quota ip db = (r, db')"
  shows "\<exists>used. faults db = used @ faults db' \<and> (True \<in> set used) = (r = Inl D1Error)"
  using assms unfolding select_quota_def by (rule run_spent) auto

lemma insert_quota_spent:
  assumes "insert_quota ip n t db = (r, db')"
  shows "\<exists>used. faults db = used @ faults db' \<and> (True \<in> set used) = (r = Inl D1Error)"
  using assms unfolding insert_quota_def by (rule run_spent) (auto split: option.splits)

lemma update_quota_reset_spent:
  assumes "update_quota_reset ip n t db = (r, db')"
  shows "\<exists>used. faults db = used @ faults db' \<and> (True \<in> set used) = (r = Inl D1Error)"
  using assms unfolding update_quota_reset_def by (rule run_spent) (auto split: option.splits)

lemma update_quota_remaining_spent:
  assumes "update_quota_remaining ip n db = (r, db')"
  shows "\<exists>used. faults db = used @ faults db' \<and> (True \<in> set used) = (r = Inl D1Error)"
  using assms unfolding update_quota_remaining_def by (rule run_spent) (auto split: option.splits)

lemma insert_operation_spent:
  assumes "insert_operation ip ty n doc dbnow db = (r, db')"
  shows "\<exists>used. faults db = used @ faults db' \<and> (True \<in> set used) = (r = Inl D1Error)"
  using assms unfolding insert_operation_def by (rule run_spent) auto

lemma select_usage_spent:
  assumes "select_usage ip bound db = (r, db')"
  shows "\<exists>used. faults db = used @ faults db' \<and> (True \<in> set used) = (r = Inl D1Error)"
  using assms unfolding select_usage_def by (rule run_spent) auto

lemma spent_then:
  assumes "faults db = u1 @ faults db1" and "True \<notin> set u1"
    and "faults db1 = u2 @ faults db2"
  shows "faults db = (u1 @ u2) @ faults db2 \<and> (True \<in> set (u1 @ u2)) = (True \<in> set u2)"
  using assms by simp

lemma checkQuota_spent:
  assumes "checkQuota ip now db = (r, db')"
  shows "\<exists>used. faults db = used @ faults db' \<and>
     (if True \<in> set used then r = Inl D1Error else \<exists>q. r = Inr q)"
proof -
  obtain r1 db1 where s: "select_quota ip db = (r1, db1)" by (cases "select_quota ip db")
  from select_quota_spent [OF s] obtain u1 where
    u1: "faults db = u1 @ faults db1" "(True \<in> set u1) = (r1 = Inl D1Error)" by blast
  note e1 = select_quota_effect [OF s]
  show ?thesis
  proof (cases r1)
    case (Inl e)
    with e1 have "r1 = Inl D1Error" by auto
    with assms s u1 show ?thesis by (auto simp: checkQuota_def)
  next
    case (Inr existing)
    with u1 have n1: "True \<notin> set u1" by simp
    from Inr e1 have ex: "existing = quotas db ip" "quotas db1 = quotas db" by auto
    show ?thesis
    proof (cases existing)
      case None
      obtain r2 db2 where i: "insert_quota ip FREE_QUOTA now db1 = (r2, db2)"
        by (cases "insert_quota ip FREE_QUOTA now db1")
      from insert_quota_spent [OF i] obtain u2 where
        u2: "faults db1 = u2 @ faults db2" "(True \<in> set u2) = (r2 = Inl D1Error)" by blast
      have nc: "r2 = Inl D1Error \<or> r2 = Inr ()"
        using i ex None unfolding insert_quota_def
        by (elim run_elim) (auto split: option.splits)
      from assms s Inr None i have rr: "r2 = Inr () \<Longrightarrow> \<exists>q. r = Inr q"
        "r2 = Inl D1Error \<Longrightarrow> r = Inl D1Error" "db' = db2"
        by (auto simp: checkQuota_def split: sum.splits)
      from spent_then [OF u1(1) n1 u2(1)] u2(2) nc rr show ?thesis
        by (intro exI [of _ "u1 @ u2"]) auto
    next
      case (Some row)
      show ?thesis
      proof (cases "now - last_reset row \<ge> 86400000")
        case True
        obtain r2 db2 where u: "update_quota_reset ip FREE_QUOTA now db1 = (r2, db2)"
          by (cases "update_quota_reset ip FREE_QUOTA now db1")
        from update_quota_reset_spent [OF u] obtain u2 where
          u2: "faults db1 = u2 @ faults db2" "(True \<in> set u2) = (r2 = Inl D1Error)" by blast
        have nc: "r2 = Inl D1Error \<or> r2 = Inr ()"
          using update_quota_reset_effect [OF u] by auto
        from assms s Inr Some u True have rr: "r2 = Inr () \<Longrightarrow> \<exists>q. r = Inr q"
          "r2 = Inl D1Error \<Longrightarrow> r = Inl D1Error" "db' = db2"
          by (auto simp: checkQuota_def expired_iff QUOTA_RESET_HOURS_def split: sum.splits)
        from spent_then [OF u1(1) n1 u2(1)] u2(2) nc rr show ?thesis
          by (intro exI [of _ "u1 @ u2"]) auto
      next
        case False
        with assms s Inr Some have "\<exists>q. r = Inr q" "db' = db1"
          by (auto simp: checkQuota_def expired_iff QUOTA_RESET_HOURS_def)
        with u1 n1 show ?thesis by (intro exI [of _ u1]) auto
      qed
    qed
  qed
qed

lemma getUsageStats_spent:
  assumes "getUsageStats ip now today tz db = (r, db')"
  shows "\<exists>used. faults db = used @ faults db' \<and>
     (if True \<in> set used then r = Inr None else \<exists>st. r = Inr (Some st))"
proof -
  obtain rc dbc where c: "checkQuota ip now db = (rc, dbc)" by (cases "checkQuota ip now db")
  from checkQuota_spent [OF c] obtain u1 where
    u1: "faults db = u1 @ faults dbc"
      "if True \<in> set u1 then rc = Inl D1Error else \<exists>q. rc = Inr q" by blast
  show ?thesis
  proof (cases "True \<in> set u1")
    case True
    with u1 assms c show ?thesis by (intro exI [of _ u1]) (auto simp: getUsageStats_def)
  next
    case False
    with u1 obtain q where q: "rc = Inr q" by auto
    obtain r2 db2 where s: "select_usage ip (toISOString (startOfDay tz today)) dbc = (r2, db2)"
      by (cases "select_usage ip (toISOString (startOfDay tz today)) dbc")
    from select_usage_spent [OF s] obtain u2 where
      u2: "faults dbc = u2 @ faults db2" "(True \<in> set u2) = (r2 = Inl D1Error)" by blast
    have nc: "r2 = Inl D1Error \<or> (\<exists>rows. r2 = Inr rows)"
      using s unfolding select_usage_def by (elim run_elim) auto
    from assms c q s have rr: "r2 = Inl D1Error \<Longrightarrow> r = Inr None"
      "\<And>rows. r2 = Inr rows \<Longrightarrow> \<exists>st. r = Inr (Some st)" "db' = db2"
      by (auto simp: getUsageStats_def Let_def split: sum.splits)
    from spent_then [OF u1(1) False u2(1)] u2(2) nc rr show ?thesis
      by (intro exI [of _ "u1 @ u2"]) auto
  qed
qed

lemma consumeQuota_spent:
  assumes "consumeQuota ip ty n doc now dbnow db = (r, db')"
  shows "\<exists>used. faults db = used @ faults db' \<and>
     (if True \<in> set used then r = Inr failed_result
      else \<exists>res. r = Inr res \<and> quota res \<noteq> None \<and> (success res = (error res = None)))"
proof -
  obtain rc dbc where c: "checkQuota ip now db = (rc, dbc)" by (cases "checkQuota ip now db")
  from checkQuota_spent [OF c] obtain u1 where
    u1: "faults db = u1 @ faults dbc"
      "if True \<in> set u1 then rc = Inl D1Error else \<exists>q. rc = Inr q" by blast
  show ?thesis
  proof (cases "True \<in> set u1")
    case True
    with u1 assms c show ?thesis by (intro exI [of _ u1]) (auto simp: consumeQuota_def)
  next
    case False
    with u1 obtain qi where q: "rc = Inr qi" by auto
    show ?thesis
    proof (cases "remaining qi < n")
      case True
      with assms c q have "r = Inr \<lparr>success = False, quota = Some qi,
          error = Some (insufficient_message (remaining qi) n)\<rparr>" "db' = dbc"
        by (auto simp: consumeQuota_def)
      with u1 False show ?thesis by (intro exI [of _ u1]) auto
    next
      case nlt: False
      obtain r2 db2 where u: "update_quota_remaining ip (remaining qi - n) dbc = (r2, db2)"
        by (cases "update_quota_remaining ip (remaining qi - n) dbc")
      from update_quota_remaining_spent [OF u] obtain u2 where
        u2: "faults dbc = u2 @ faults db2" "(True \<in> set u2) = (r2 = Inl D1Error)" by blast
      have nc2: "r2 = Inl D1Error \<or> r2 = Inr ()"
        using update_quota_remaining_effect [OF u] by auto
      note s12 = spent_then [OF u1(1) False u2(1)]
      show ?thesis
      proof (cases "r2 = Inl D1Error")
        case True
        with assms c q nlt u have "r = Inr failed_result" "db' = db2"
          by (auto simp: consumeQuota_def)
        with s12 u2(2) True show ?thesis by (intro exI [of _ "u1 @ u2"]) auto
      next
        case ok2: False
        with nc2 have r2: "r2 = Inr ()" by simp
        from ok2 u2(2) s12 have n12: "True \<notin> set (u1 @ u2)" by simp
        obtain r3 db3 where i: "insert_operation ip ty n (or_null doc) dbnow db2 = (r3, db3)"
          by (cases "insert_operation ip ty n (or_null doc) dbnow db2")
        from insert_operation_spent [OF i] obtain u3 where
          u3: "faults db2 = u3 @ faults db3" "(True \<in> set u3) = (r3 = Inl D1Error)" by blast
        have nc3: "r3 = Inl D1Error \<or> r3 = Inr ()"
          using insert_operation_effect [OF i] by auto
        from assms c q nlt u r2 i have rr: "r3 = Inl D1Error \<Longrightarrow> r = Inr failed_result"
          "r3 = Inr () \<Longrightarrow> r = Inr \<lparr>success = True,
              quota = Some (qi\<lparr>remaining := remaining qi - n\<rparr>), error = None\<rparr>" "db' = db3"
          by (auto simp: consumeQuota_def split: sum.splits)
        from spent_then [OF conjunct1 [OF s12] n12 u3(1)] u3(2) nc3 rr show ?thesis
          by (intro exI [of _ "(u1 @ u2) @ u3"]) auto
      qed
    qed
  qed
qed

lemma threw_checkQuota:
  "if threw db (snd (checkQuota ip now db)) then fst (checkQuota ip now db) = Inl D1Error
   else \<exists>q. fst (checkQuota ip now db) = Inr q"
proof -
  obtain r db' where c: "checkQuota ip now db = (r, db')" by (cases "checkQuota ip now db")
  from checkQuota_spent [OF c] obtain used where
    u: "faults db = used @ faults db'"
       "if True \<in> set used then r = Inl D1Error else \<exists>q. r = Inr q" by blast
  from threw_append [OF u(1)] u(2) show ?thesis unfolding c by (auto split: if_splits)
qed

lemma threw_getUsageStats:
  "if threw db (snd (getUsageStats ip now today tz db))
   then fst (getUsageStats ip now today tz db) = Inr None
   else \<exists>st. fst (getUsageStats ip now today tz db) = Inr (Some st)"
proof -
  obtain r db' where c: "getUsageStats ip now today tz db = (r, db')"
    by (cases "getUsageStats ip now today tz db")
  from getUsageStats_spent [OF c] obtain used where
    u: "faults db = used @ faults db'"
       "if True \<in> set used then r = Inr None else \<exists>st. r = Inr (Some st)" by blast
  from threw_append [OF u(1)] u(2) show ?thesis unfolding c by (auto split: if_splits)
qed

lemma threw_consumeQuota:
  "if threw db (snd (consumeQuota ip ty n doc now dbnow db))
   then fst (consumeQuota ip ty n doc now dbnow db) = Inr failed_result
   else \<exists>res. fst (consumeQuota ip ty n doc now dbnow db) = Inr res \<and> quota res \<noteq> None \<and>
          (success res = (error res = None))"
proof -
  obtain r db' where c: "consumeQuota ip ty n doc now dbnow db = (r, db')"
    by (cases "consumeQuota ip ty n doc now dbnow db")
  from consumeQuota_spent [OF c] obtain used where
    u: "faults db = used @ faults db'"
       "if True \<in> set used then r = Inr failed_result
        else \<exists>res. r = Inr res \<and> quota res \<noteq> None \<and> (success res = (error res = None))" by blast
  from threw_append [OF u(1)] u(2) show ?thesis unfolding c by (auto split: if_splits)
qed

text \<open>
  C8, as the code has it, for every fault plan. When one of its statements throws (the
  SELECT, or the INSERT or UPDATE after it), \<open>checkQuota\<close> ends with that
  exception; otherwise it returns a \<open>QuotaInfo\<close>. \<open>getUsageStats\<close> never
  raises: when a statement of its \<open>checkQuota\<close> call or its own SELECT throws, its
  \<open>catch\<close> returns \<open>null\<close>, and it returns statistics exactly when no
  statement threw. \<open>consumeQuota\<close> never raises either: when a statement of its
  \<open>checkQuota\<close> call, its UPDATE or its INSERT throws, it returns the structured
  failure \<open>failed_result\<close>; when none throws it returns a result with the
  \<open>QuotaInfo\<close>, successful or with the insufficient-quota error. Every result
  that is not a success carries an error text.
\<close>

theorem fault_handling:
  "(if threw db (snd (checkQuota ip now db)) then fst (checkQuota ip now db) = Inl D1Error
    else \<exists>q. fst (checkQuota ip now db) = Inr q) \<and>
   (if threw db (snd (getUsageStats ip now today tz db))
    then fst (getUsageStats ip now today tz db) = Inr None
    else \<exists>st. fst (getUsageStats ip now today tz db) = Inr (Some st)) \<and>
   (if threw db (snd (consumeQuota ip ty n doc now dbnow db))
    then fst (consumeQuota ip ty n doc now dbnow db) = Inr failed_result
    else \<exists>res. fst (consumeQuota ip ty n doc now dbnow db) = Inr res \<and> quota res \<noteq> None \<and>
           (success res = (error res = None))) \<and>
   (\<exists>res. fst (consumeQuota ip ty n doc now dbnow db) = Inr res \<and>
      (\<not> success res \<longrightarrow> error res \<noteq> None))"
  using threw_checkQuota [of db ip now] threw_getUsageStats [of db ip now today tz]
    threw_consumeQuota [of db ip ty n doc now dbnow]
    consumeQuota_never_raises [of ip ty n doc now dbnow db]
  by simp

theorem fault_handling_witness:
  "threw ((db_with ''203.0.113.7'' 5 1700000000000)\<lparr>faults := [False, True]\<rparr>)
     (snd (checkQuota ''203.0.113.7'' 1700090000000
        ((db_with ''203.0.113.7'' 5 1700000000000)\<lparr>faults := [False, True]\<rparr>))) \<and>
   fst (checkQuota ''203.0.113.7'' 1700090000000
        ((db_with ''203.0.113.7'' 5 1700000000000)\<lparr>faults := [False, True]\<rparr>)) =
     Inl D1Error \<and>
   threw ((db_with ''203.0.113.7'' 5 1700000000000)\<lparr>faults := [False, True]\<rparr>)
     (snd (getUsageStats ''203.0.113.7'' 1700000001000 1700000001000 0
        ((db_with ''203.0.113.7'' 5 1700000000000)\<lparr>faults := [False, True]\<rparr>))) \<and>
   fst (getUsageStats ''203.0.113.7'' 1700000001000 1700000001000 0
        ((db_with ''203.0.113.7'' 5 1700000000000)\<lparr>faults := [False, True]\<rparr>)) =
     Inr None \<and>
   threw ((db_with ''203.0.113.7'' 5 1700000000000)\<lparr>faults := [False, False, True]\<rparr>)
     (snd (consumeQuota ''203.0.113.7'' ''publish'' 1 None 1700000001000 1700000001000
        ((db_with ''203.0.113.7'' 5 1700000000000)\<lparr>faults := [False, False, True]\<rparr>))) \<and>
   fst (consumeQuota ''203.0.113.7'' ''publish'' 1 None 1700000001000 1700000001000
        ((db_with ''203.0.113.7'' 5 1700000000000)\<lparr>faults := [False, False, True]\<rparr>)) =
     Inr failed_result \<and>
   \<not> threw (db_with ''203.0.113.7'' 5 1700000000000)
     (snd (consumeQuota ''203.0.113.7'' ''publish'' 1 None 1700000001000 1700000001000
        (db_with ''203.0.113.7'' 5 1700000000000)))"
proof -
  let ?db2 = "(db_with ''203.0.113.7'' 5 1700000000000)\<lparr>faults := [False, True]\<rparr>"
  let ?db3 = "(db_with ''203.0.113.7'' 5 1700000000000)\<lparr>faults := [False, False, True]\<rparr>"
  have c: "snd (checkQuota ''203.0.113.7'' 1700090000000 ?db2) =
      db_with ''203.0.113.7'' 5 1700000000000"
    by (simp add: checkQuota_def select_quota_def update_quota_reset_def run_def db_with_def
        empty_db_def QUOTA_RESET_HOURS_def FREE_QUOTA_def Let_def)
  have g: "snd (getUsageStats ''203.0.113.7'' 1700000001000 1700000001000 0 ?db2) =
      db_with ''203.0.113.7'' 5 1700000000000"
    by (simp add: getUsageStats_def checkQuota_def select_quota_def select_usage_def run_def
        db_with_def empty_db_def QUOTA_RESET_HOURS_def FREE_QUOTA_def Let_def)
  have u: "snd (consumeQuota ''203.0.113.7'' ''publish'' 1 None 1700000001000 1700000001000 ?db3) =
      db_with ''203.0.113.7'' 4 1700000000000"
    by (simp add: consumeQuota_def checkQuota_def select_quota_def update_quota_remaining_def
        insert_operation_def run_def db_with_def empty_db_def QUOTA_RESET_HOURS_def
        FREE_QUOTA_def Let_def)
  have h: "faults (snd (consumeQuota ''203.0.113.7'' ''publish'' 1 None 1700000001000
      1700000001000 (db_with ''203.0.113.7'' 5 1700000000000))) = []"
    by (simp add: consumeQuota_def checkQuota_def select_quota_def update_quota_remaining_def
        insert_operation_def run_def db_with_def empty_db_def QUOTA_RESET_HOURS_def
        FREE_QUOTA_def Let_def)
  have t: "threw ?db2 (db_with ''203.0.113.7'' 5 1700000000000)"
    "threw ?db3 (db_with ''203.0.113.7'' 4 1700000000000)"
    by (simp_all add: threw_def db_with_def empty_db_def)
  have n: "\<not> threw (db_with ''203.0.113.7'' 5 1700000000000)
     (snd (consumeQuota ''203.0.113.7'' ''publish'' 1 None 1700000001000 1700000001000
        (db_with ''203.0.113.7'' 5 1700000000000)))"
    by (simp add: threw_def h) (simp add: db_with_def empty_db_def)
  show ?thesis
    using fault_handling [of ?db2 "''203.0.113.7''" 1700090000000 1700000001000 0
        "''publish''" 1 None 1700000001000]
      fault_handling [of ?db2 "''203.0.113.7''" 1700000001000 1700000001000 0
        "''publish''" 1 None 1700000001000]
      fault_handling [of ?db3 "''203.0.113.7''" 1700000001000 1700000001000 0
        "''publish''" 1 None 1700000001000]
      t n
    by (simp add: c g u)
qed

text \<open>
  The claim C8 says a fault on the read path of \<open>getUsageStats\<close> reaches the caller
  as an exception. With the SELECT of its \<open>checkQuota\<close> failing, the call returns
  \<open>null\<close> instead.
\<close>

theorem getUsageStats_fault_counterexample:
  "getUsageStats ''203.0.113.7'' 1700000000000 1700000000000 0 (empty_db\<lparr>faults := [True]\<rparr>) =
     (Inr None, empty_db)"
  by (simp add: getUsageStats_def checkQuota_fault empty_db_def)

section \<open>Viewing a document\<close>









section \<open>The quota stays in its range\<close>

lemma ready_in_range: "ready ip ip' db \<Longrightarrow> in_range ip' db"
  by (simp add: ready_def)

lemma in_range_quotas: "quotas db' = quotas db \<Longrightarrow> in_range ip db' = in_range ip db"
  by (simp add: in_range_def)

lemma ready_quotas: "quotas db' = quotas db \<Longrightarrow> ready ip ip' db' = ready ip ip' db"
  by (simp add: ready_def in_range_def has_room_def)

lemma checkQuota_range:
  assumes "in_range ip' db" and "checkQuota ip now db = (rc, dbc)"
  shows "in_range ip' dbc"
  using checkQuota_effect [OF assms(2)] assms(1)
  by (cases rc) (auto simp: in_range_def FREE_QUOTA_def split: option.splits if_splits)

lemma consumeQuota_range:
  assumes "in_range ip' db" and "0 \<le> n"
    and "consumeQuota ip ty n doc now dbnow db = (r, db')"
  shows "in_range ip' db' \<and>
         (\<forall>res. r = Inr res \<and> success res \<and> 1 \<le> n \<longrightarrow> ready ip ip' db')"
proof -
  obtain rc dbc where c: "checkQuota ip now db = (rc, dbc)" by (cases "checkQuota ip now db")
  note rng = checkQuota_range [OF assms(1) c]
  note eff = consumeQuota_effect [OF c assms(3)]
  show ?thesis
  proof (cases rc)
    case (Inl e)
    with eff rng show ?thesis by (auto simp: failed_result_def)
  next
    case (Inr qi)
    show ?thesis
    proof (cases "remaining qi < n")
      case True
      with eff rng Inr show ?thesis by auto
    next
      case False
      with eff Inr obtain row res where
        row: "quotas dbc ip = Some row" "remaining_operations row = remaining qi"
        and res: "r = Inr res"
        and alt: "res = failed_result \<and> quotas db' = quotas dbc \<or>
           quotas db' = (quotas dbc)(ip \<mapsto> row\<lparr>remaining_operations := remaining qi - n\<rparr>)"
        by auto
      from rng row False assms(2)
      have b: "ip' = ip \<Longrightarrow> 0 \<le> remaining qi - n \<and> remaining qi - n \<le> FREE_QUOTA \<and>
               (1 \<le> n \<longrightarrow> remaining qi - n < FREE_QUOTA)"
        by (auto simp: in_range_def)
      from alt show ?thesis
      proof
        assume "res = failed_result \<and> quotas db' = quotas dbc"
        with rng res in_range_quotas [of db' dbc ip'] show ?thesis
          by (auto simp: failed_result_def)
      next
        assume u: "quotas db' = (quotas dbc)(ip \<mapsto> row\<lparr>remaining_operations := remaining qi - n\<rparr>)"
        with rng b show ?thesis
          by (auto simp: in_range_def ready_def has_room_def)
      qed
    qed
  qed
qed

lemma refund_ready:
  assumes "ready ip ip' db" and "refund_quota ip db = (r, db')"
  shows "in_range ip' db' \<and> ((\<exists>e. r = Inl e) \<longrightarrow> ready ip ip' db')"
  using refund_quota_effect [OF assms(2)] assms(1)
  by (auto simp: ready_def in_range_def has_room_def split: option.splits if_splits)

lemma save_stage_range:
  assumes "ready ip ip' db"
  shows "in_range ip' (snd (save_stage ip content docId quotaResult db))"
proof -
  have failed: "in_range ip' (snd (case refund_quota ip dbf of
            (Inl e, db') \<Rightarrow> (Inl e, db')
          | (Inr u, db') \<Rightarrow> (Inr (ActionError m None), db')))"
    if "ready ip ip' dbf" for dbf m
  proof -
    obtain r db' where f: "refund_quota ip dbf = (r, db')" by (cases "refund_quota ip dbf")
    from refund_ready [OF that f] show ?thesis by (cases r) (simp_all add: f)
  qed
  obtain r1 db1 where i: "insert_document docId ''Untitled Document'' content db = (r1, db1)"
    by (cases "insert_document docId ''Untitled Document'' content db")
  from insert_document_effect [OF i] assms ready_quotas [of db1 db ip ip']
  have r1: "ready ip ip' db1"
    by simp
  show ?thesis
  proof (cases r1)
    case (Inl e)
    with i failed [OF r1] show ?thesis by (simp add: save_stage_def)
  next
    case (Inr u)
    obtain r2 db2 where a: "attach_document_id docId ip db1 = (r2, db2)"
      by (cases "attach_document_id docId ip db1")
    from attach_document_id_effect [OF a] r1 ready_quotas [of db2 db1 ip ip']
    have r2: "ready ip ip' db2"
      by simp
    from Inr i a failed [OF r2] ready_in_range [OF r2] show ?thesis
      by (cases r2) (simp_all add: save_stage_def)
  qed
qed

lemma moderation_stage_range:
  assumes "ready ip ip' db"
  shows "in_range ip' (snd (moderation_stage ip content ai docId quotaResult db))"
proof (cases "safe (moderateContent content ai)")
  case True
  with save_stage_range [OF assms] show ?thesis by (simp add: moderation_stage_def)
next
  case False
  obtain r db1 where f: "refund_quota ip db = (r, db1)" by (cases "refund_quota ip db")
  from refund_ready [OF assms f] False f show ?thesis
    by (cases r) (auto simp: moderation_stage_def save_stage_range)
qed

lemma rate_limit_stage_range:
  assumes "ready ip ip' db"
  shows "in_range ip' (snd (rate_limit_stage ip content limiter ai docId quotaResult db))"
proof (cases "limiter = Inr False")
  case True
  obtain r db1 where f: "refund_quota ip db = (r, db1)" by (cases "refund_quota ip db")
  from refund_ready [OF assms f] True f show ?thesis
    by (cases r) (auto simp: rate_limit_stage_def moderation_stage_range)
next
  case False
  with moderation_stage_range [OF assms] show ?thesis
    by (auto simp: rate_limit_stage_def split: sum.splits bool.splits)
qed

lemma action_range:
  assumes "in_range ip' db"
  shows "in_range ip' (snd (action headers form_content limiter ai docId now dbnow db))"
proof (cases form_content)
  case None
  with assms show ?thesis by (simp add: action_def)
next
  case (Some content)
  show ?thesis
  proof (cases "content = [] \<or> of_nat (utf8_length content) > maxSize")
    case True
    with assms Some show ?thesis
      by (cases content) (auto simp: action_def Let_def)
  next
    case False
    then obtain c cs where cc: "content = c # cs" by (cases content) auto
    let ?ip = "getClientIP headers"
    obtain r db1 where q: "consumeQuota ?ip ''publish'' 1 None now dbnow db = (r, db1)"
      by (cases "consumeQuota ?ip ''publish'' 1 None now dbnow db")
    from consumeQuota_range [OF assms _ q]
    have rng: "in_range ip' db1" and rdy: "\<And>res. r = Inr res \<Longrightarrow> success res \<Longrightarrow> ready ?ip ip' db1"
      by auto
    show ?thesis
    proof (cases r)
      case (Inl e)
      with Some cc False q rng show ?thesis by (simp add: action_def Let_def)
    next
      case (Inr res)
      show ?thesis
      proof (cases "success res")
        case True
        from rate_limit_stage_range [OF rdy [OF Inr True]] Some cc False q Inr True
        show ?thesis by (simp add: action_def Let_def)
      next
        case False2: False
        with Some cc False q Inr rng show ?thesis by (simp add: action_def Let_def)
      qed
    qed
  qed
qed

lemma document_loader_range:
  assumes "in_range ip' db"
  shows "in_range ip' (snd (document_loader docId headers now dbnow db))"
proof -
  obtain r1 db1 where s: "select_document docId db = (r1, db1)"
    by (cases "select_document docId db")
  from select_document_effect [OF s] assms in_range_quotas [of db1 db ip']
  have r1: "in_range ip' db1" by simp
  obtain r2 db2 where
    c: "consumeQuota (getClientIP headers) ''view'' 1 (Some docId) now dbnow db1 = (r2, db2)"
    by (cases "consumeQuota (getClientIP headers) ''view'' 1 (Some docId) now dbnow db1")
  from consumeQuota_range [OF r1 _ c] have r2: "in_range ip' db2" by simp
  from s c r1 r2 show ?thesis
    by (auto simp: document_loader_def split: sum.splits option.splits)
qed

lemma getUsageStats_range:
  assumes "in_range ip' db"
  shows "in_range ip' (snd (getUsageStats ip now today tz db))"
proof -
  obtain rc dbc where c: "checkQuota ip now db = (rc, dbc)" by (cases "checkQuota ip now db")
  note r1 = checkQuota_range [OF assms c]
  obtain r2 db2 where u: "select_usage ip (toISOString (startOfDay tz today)) dbc = (r2, db2)"
    by (cases "select_usage ip (toISOString (startOfDay tz today)) dbc")
  from select_usage_effect [OF u] r1 in_range_quotas [of db2 dbc ip']
  have r2: "in_range ip' db2" by simp
  from c u r1 r2 show ?thesis
    by (auto simp: getUsageStats_def Let_def split: sum.splits)
qed

lemma api_quota_loader_snd:
  "snd (api_quota_loader headers now today tz db) =
   snd (getUsageStats (getClientIP headers) now today tz db)"
  by (auto simp: api_quota_loader_def Let_def split: prod.splits sum.splits option.splits)

lemma serve_range:
  assumes "in_range ip db" and "count_ok r"
  shows "in_range ip (serve r db)"
proof (cases r)
  case (Publish headers form_content limiter ai docId now dbnow)
  with action_range [OF assms(1)] show ?thesis by simp
next
  case (View docId headers now dbnow)
  with document_loader_range [OF assms(1)] show ?thesis by simp
next
  case (Home headers now)
  obtain rc dbc where c: "checkQuota (getClientIP headers) now db = (rc, dbc)"
    by (cases "checkQuota (getClientIP headers) now db")
  from checkQuota_range [OF assms(1) c] c Home show ?thesis by (simp add: home_loader_def)
next
  case (Stats headers now today tz)
  with getUsageStats_range [OF assms(1)] show ?thesis by (simp add: api_quota_loader_snd)
next
  case (Consume ip2 ty n doc now dbnow)
  obtain r2 db2 where c: "consumeQuota ip2 ty n doc now dbnow db = (r2, db2)"
    by (cases "consumeQuota ip2 ty n doc now dbnow db")
  from consumeQuota_range [OF assms(1) _ c] assms(2) Consume c show ?thesis by simp
next
  case (Check ip2 now)
  obtain rc dbc where c: "checkQuota ip2 now db = (rc, dbc)" by (cases "checkQuota ip2 now db")
  from checkQuota_range [OF assms(1) c] c Check show ?thesis by simp
qed

text \<open>
  C1, as the code has it. For every address, the stored remaining value stays in
  \<open>[0, FREE_QUOTA]\<close> after any sequence of requests that do not overlap, each
  served to its end before the next begins: publish actions (the only place a refund
  is issued, after a successful one-unit consume of the same request), document views,
  quota checks with their resets, statistics, and \<open>consumeQuota\<close> calls with a
  count of at least 0, whatever the storage faults and the collaborators' answers.
\<close>

theorem quota_stays_in_range:
  assumes "in_range ip db" and "list_all count_ok rs"
  shows "in_range ip (serve_all rs db)"
  using assms unfolding serve_all_def
proof (induction rs arbitrary: db)
  case Nil
  then show ?case by simp
next
  case (Cons r rs)
  from Cons.prems have "in_range ip (serve r db)" by (simp add: serve_range)
  with Cons.IH Cons.prems(2) show ?case by simp
qed

theorem quota_stays_in_range_witness:
  "in_range ''203.0.113.7'' empty_db \<and>
   list_all count_ok
     [Check ''203.0.113.7'' 1700000000000,
      Consume ''203.0.113.7'' ''publish'' 1 None 1700000001000 1700000001000,
      Publish visitor (Some (lit ''javascript:'')) (Inr False) failing_ai
        ''a1b2c3d4'' 1700000002000 1700000002000,
      View ''a1b2c3d4'' visitor 1700000003000 1700000003000] \<and>
   in_range ''203.0.113.7''
     (serve_all
        [Check ''203.0.113.7'' 1700000000000,
         Consume ''203.0.113.7'' ''publish'' 1 None 1700000001000 1700000001000,
         Publish visitor (Some (lit ''javascript:'')) (Inr False) failing_ai
           ''a1b2c3d4'' 1700000002000 1700000002000,
         View ''a1b2c3d4'' visitor 1700000003000 1700000003000]
        empty_db)"
proof -
  have a: "in_range ''203.0.113.7'' empty_db" by (simp add: in_range_def empty_db_def)
  have b: "list_all count_ok
     [Check ''203.0.113.7'' 1700000000000,
      Consume ''203.0.113.7'' ''publish'' 1 None 1700000001000 1700000001000,
      Publish visitor (Some (lit ''javascript:'')) (Inr False) failing_ai
        ''a1b2c3d4'' 1700000002000 1700000002000,
      View ''a1b2c3d4'' visitor 1700000003000 1700000003000]" by simp
  from quota_stays_in_range [OF a b] a b show ?thesis by blast
qed

subsection \<open>Requests in flight together\<close>

text \<open>Run without a break, the processes are the functions of the routes.\<close>

lemma exec_await:
  "exec (await stmt k) db = (case stmt db of (r, db') \<Rightarrow> exec (k r) db')"
  by (simp add: await_def split: prod.splits)

lemma exec_pause: "exec (pause p) db = exec p db"
  by (simp add: pause_def)

lemma exec_checkQuota_proc:
  "exec (checkQuota_proc ip now k) db = (case checkQuota ip now db of (r, db') \<Rightarrow> exec (k r) db')"
  by (simp add: checkQuota_proc_def checkQuota_def exec_await Let_def
      split: prod.splits sum.splits option.splits)

lemma exec_consumeQuota_proc:
  "exec (consumeQuota_proc ip ty n doc now dbnow k) db =
     (case consumeQuota ip ty n doc now dbnow db of (r, db') \<Rightarrow> exec (k r) db')"
  by (simp add: consumeQuota_proc_def consumeQuota_def exec_checkQuota_proc exec_await Let_def
      split: prod.splits sum.splits)

lemma exec_save_proc:
  "exec (save_proc ip content docId quotaResult) db = save_stage ip content docId quotaResult db"
  by (simp add: save_proc_def save_stage_def exec_await Let_def
      split: prod.splits sum.splits)

lemma exec_moderation_proc:
  "exec (moderation_proc ip content ai docId quotaResult) db =
     moderation_stage ip content ai docId quotaResult db"
  by (simp add: moderation_proc_def moderation_stage_def exec_await exec_pause exec_save_proc
      Let_def split: prod.splits sum.splits)

lemma exec_rate_limit_proc:
  "exec (rate_limit_proc ip content limiter ai docId quotaResult) db =
     rate_limit_stage ip content limiter ai docId quotaResult db"
  by (simp add: rate_limit_proc_def rate_limit_stage_def exec_await exec_pause
      exec_moderation_proc split: prod.splits sum.splits bool.splits)

lemma exec_action_proc:
  "exec (action_proc headers form_content limiter ai docId now dbnow) db =
     action headers form_content limiter ai docId now dbnow db"
  by (simp add: action_proc_def action_def exec_consumeQuota_proc exec_rate_limit_proc Let_def
      split: option.splits list.splits prod.splits sum.splits)

lemma step_await: "step (await stmt k) db = (k (fst (stmt db)), snd (stmt db))"
  by (simp add: await_def)

lemma step_pause: "step (pause p) db = (p, db)"
  by (simp add: pause_def)

lemma run_plain: "faults db = [] \<Longrightarrow> run stmt db = stmt db"
  by (simp add: run_def)

lemma two_publishes_overlapping:
  "interleave [0, 1, 0, 1, 0, 1, 0, 1, 0, 1] two_publishes
       (db_with ''203.0.113.7'' 50 1700000000000) =
     ([Done (Inr (ActionError (Some rate_limit_message) None)),
       Done (Inr (ActionError (Some rate_limit_message) None))],
      (db_with ''203.0.113.7'' 51 1700000000000)\<lparr>operations :=
         [\<lparr>op_id = 1, ip_address = ''203.0.113.7'', operation_type = ''publish'',
           operation_count = 1, document_id = None,
           created_at = CURRENT_TIMESTAMP 1700000001000\<rparr>,
          \<lparr>op_id = 2, ip_address = ''203.0.113.7'', operation_type = ''publish'',
           operation_count = 1, document_id = None,
           created_at = CURRENT_TIMESTAMP 1700000001000\<rparr>]\<rparr>)"
  by (simp add: two_publishes_def action_proc_def consumeQuota_proc_def checkQuota_proc_def
      rate_limit_proc_def step_await step_pause select_quota_def update_quota_remaining_def
      insert_operation_def refund_quota_def run_plain db_with_def empty_db_def visitor_def
      getClientIP_def lit_def maxSize_def FREE_QUOTA_def QUOTA_RESET_HOURS_def or_null_def
      next_op_id_def Let_def)

lemma two_publishes_in_turn:
  "interleave [0, 0, 0, 0, 0, 1, 1, 1, 1, 1] two_publishes
       (db_with ''203.0.113.7'' 50 1700000000000) =
     ([Done (Inr (ActionError (Some rate_limit_message) None)),
       Done (Inr (ActionError (Some rate_limit_message) None))],
      (db_with ''203.0.113.7'' 50 1700000000000)\<lparr>operations :=
         [\<lparr>op_id = 1, ip_address = ''203.0.113.7'', operation_type = ''publish'',
           operation_count = 1, document_id = None,
           created_at = CURRENT_TIMESTAMP 1700000001000\<rparr>,
          \<lparr>op_id = 2, ip_address = ''203.0.113.7'', operation_type = ''publish'',
           operation_count = 1, document_id = None,
           created_at = CURRENT_TIMESTAMP 1700000001000\<rparr>]\<rparr>)"
  by (simp add: two_publishes_def action_proc_def consumeQuota_proc_def checkQuota_proc_def
      rate_limit_proc_def step_await step_pause select_quota_def update_quota_remaining_def
      insert_operation_def refund_quota_def run_plain db_with_def empty_db_def visitor_def
      getClientIP_def lit_def maxSize_def FREE_QUOTA_def QUOTA_RESET_HOURS_def or_null_def
      next_op_id_def Let_def)

text \<open>
  The claim C1 says that no sequence of consumes and refunds pushes the value above
  the limit. Two publish requests of one address that are in flight together, on a
  record with 50 units: both read 50, both store 49 and log their operation, both are
  turned down by the rate limiter and both refund one unit. The record ends at 51.
  Served one after the other, the same two requests leave 50.
\<close>

theorem overlapping_refunds_counterexample:
  "in_range ''203.0.113.7'' (db_with ''203.0.113.7'' 50 1700000000000) \<and>
   fst (interleave [0, 1, 0, 1, 0, 1, 0, 1, 0, 1] two_publishes
          (db_with ''203.0.113.7'' 50 1700000000000)) =
     [Done (Inr (ActionError (Some rate_limit_message) None)),
      Done (Inr (ActionError (Some rate_limit_message) None))] \<and>
   stored ''203.0.113.7''
     (snd (interleave [0, 1, 0, 1, 0, 1, 0, 1, 0, 1] two_publishes
             (db_with ''203.0.113.7'' 50 1700000000000))) = Some 51 \<and>
   \<not> in_range ''203.0.113.7''
     (snd (interleave [0, 1, 0, 1, 0, 1, 0, 1, 0, 1] two_publishes
             (db_with ''203.0.113.7'' 50 1700000000000))) \<and>
   stored ''203.0.113.7''
     (snd (interleave [0, 0, 0, 0, 0, 1, 1, 1, 1, 1] two_publishes
             (db_with ''203.0.113.7'' 50 1700000000000))) = Some 50"
  unfolding two_publishes_overlapping two_publishes_in_turn
  by (simp add: stored_def in_range_def db_with_def FREE_QUOTA_def)

section \<open>The publish action refunds what it consumed\<close>





















section \<open>Moderation when the AI fails\<close>





lemma healthy_charged_db: "healthy k charged_db"
  by (simp add: charged_db_def healthy_db_with)





text \<open>
  Two operations of one address logged in the same second, neither with a document:
  the id goes to the one logged first.
\<close>

lemma latest_unattached_equal_stamps:
  "latest_unattached ''203.0.113.7''
     [\<lparr>op_id = 1, ip_address = ''203.0.113.7'', operation_type = ''publish'',
       operation_count = 1, document_id = None, created_at = ''2023-11-14 22:13:22''\<rparr>,
      \<lparr>op_id = 2, ip_address = ''203.0.113.7'', operation_type = ''publish'',
       operation_count = 1, document_id = None, created_at = ''2023-11-14 22:13:22''\<rparr>] =
     Some 0"
  by simp





section \<open>Usage statistics\<close>

lemma stamp_text: "CURRENT_TIMESTAMP 1700000002000 = ''2023-11-14 22:13:22''"
  by code_simp

lemma bound_text: "toISOString (startOfDay 0 1700000060000) = ''2023-11-14T00:00:00.000Z''"
  by code_simp

lemma not_since: "\<not> text_le ''2023-11-14T00:00:00.000Z'' ''2023-11-14 22:13:22''"
  by simp

lemma quotas_charged_db:
  "quotas charged_db ''203.0.113.7'' =
     Some \<lparr>remaining_operations = 4, last_reset = 1700000000000\<rparr>"
  by (simp add: charged_db_def db_with_def)

lemma charged_db_tl: "charged_db\<lparr>faults := tl (faults charged_db)\<rparr> = charged_db"
  by (simp add: charged_db_def db_with_def empty_db_def)

lemma check_charged_db:
  "checkQuota ''203.0.113.7'' 1700000060000 charged_db =
     (Inr \<lparr>info_ip = ''203.0.113.7'', remaining = 4, total = 50,
           resetTime = 1700086400000, isNewUser = False\<rparr>, charged_db)"
  using checkQuota_in_window [OF quotas_charged_db _ healthy_charged_db, of 1700000060000]
  by (simp add: charged_db_tl FREE_QUOTA_def)

lemma usage_percentage_92: "Math_round 92 = 92"
  by code_simp

text \<open>Two groups with equal totals: \<open>view\<close> comes before \<open>publish\<close>.\<close>

lemma order_groups_equal_totals:
  "order_groups
     [\<lparr>breakdown_type = ''publish'', total_count = 1, operation_instances = 1\<rparr>,
      \<lparr>breakdown_type = ''view'', total_count = 1, operation_instances = 1\<rparr>] =
     [\<lparr>breakdown_type = ''view'', total_count = 1, operation_instances = 1\<rparr>,
      \<lparr>breakdown_type = ''publish'', total_count = 1, operation_instances = 1\<rparr>]"
  by (simp add: order_groups_def)

lemma select_usage_charged_db:
  "select_usage ''203.0.113.7'' ''2023-11-14T00:00:00.000Z'' charged_db = (Inr [], charged_db)"
  by (simp add: select_usage_def run_def selected_operations_def group_operations_def
      order_groups_def
      charged_db_def db_with_def empty_db_def stamp_text)

text \<open>
  C9 says \<open>operationsToday\<close> is the sum of \<open>operation_count\<close> over the
  address's operations created since the start of the local day. The query compares
  \<open>created_at\<close>, written by SQLite as \<open>2023-11-14 22:13:22\<close>, with the bound
  \<open>startOfDay.toISOString()\<close>, \<open>2023-11-14T00:00:00.000Z\<close>, as texts: on the same
  date the blank sorts before the \<open>T\<close>, so no row of the bound's date is
  selected. With one publish logged at 22:13:22 and the statistics read at 22:14:20
  of the same day (local time UTC), \<open>operationsToday\<close> is 0, not 1. The
  percentage is the claimed one, 92 for 4 of 50 units left.
\<close>

theorem usage_stats_misses_today:
  "map (\<lambda>r. (ip_address r, operation_count r, created_at r)) (operations charged_db) =
     [(''203.0.113.7'', 1, ''2023-11-14 22:13:22'')] \<and>
   toISOString (startOfDay 0 1700000060000) = ''2023-11-14T00:00:00.000Z'' \<and>
   \<not> text_le ''2023-11-14T00:00:00.000Z'' ''2023-11-14 22:13:22'' \<and>
   getUsageStats ''203.0.113.7'' 1700000060000 1700000060000 0 charged_db =
     (Inr (Some \<lparr>stats_quota = \<lparr>info_ip = ''203.0.113.7'', remaining = 4, total = 50,
                                 resetTime = 1700086400000, isNewUser = False\<rparr>,
                 operationsToday = 0, operationBreakdown = [], usagePercentage = 92\<rparr>),
      charged_db)"
proof -
  have a: "map (\<lambda>r. (ip_address r, operation_count r, created_at r)) (operations charged_db) =
     [(''203.0.113.7'', 1, ''2023-11-14 22:13:22'')]"
    by (simp add: charged_db_def stamp_text)
  have g: "getUsageStats ''203.0.113.7'' 1700000060000 1700000060000 0 charged_db =
     (Inr (Some \<lparr>stats_quota = \<lparr>info_ip = ''203.0.113.7'', remaining = 4, total = 50,
                                 resetTime = 1700086400000, isNewUser = False\<rparr>,
                 operationsToday = 0, operationBreakdown = [], usagePercentage = 92\<rparr>),
      charged_db)"
    by (simp add: getUsageStats_def check_charged_db bound_text select_usage_charged_db
        usage_percentage_92 FREE_QUOTA_def)
  from a bound_text not_since g show ?thesis by simp
qed

end
